theory Spec2Isabelle
  imports Complex_Main
begin

section \<open>JavaScript values\<close>

text \<open>
  The gateway (\<^verbatim>\<open>src/unnamed/part_000\<close>, the object \<^verbatim>\<open>appwrite\<close>) is untyped
  JavaScript: every document is an object read by field name, a missing field reads as
  \<^verbatim>\<open>undefined\<close>, and defaults are taken with \<^verbatim>\<open>||\<close>. Values are modelled as
  they are at run time. An object is an association list from field names to values, in
  insertion order. A \<^verbatim>\<open>Date\<close> carries its time value in milliseconds, \<open>None\<close> for
  an invalid date. Numbers are reals (NaN and the infinities are not modelled).
\<close>

datatype jsval =
    JUndefined
  | JNull
  | JBool bool
  | JNum real
  | JStr string
  | JDate "int option"
  | JArr "jsval list"
  | JObj "(string \<times> jsval) list"

type_synonym jsobj = "(string \<times> jsval) list"

text \<open>\<^verbatim>\<open>obj.k\<close>: the value of a field, \<^verbatim>\<open>undefined\<close> when the object has none.\<close>

definition field :: "jsobj \<Rightarrow> string \<Rightarrow> jsval" where
  "field obj k = (case map_of obj k of None \<Rightarrow> JUndefined | Some v \<Rightarrow> v)"

text \<open>\<^verbatim>\<open>obj.k = v\<close>: replaces the field in place, or appends it.\<close>

fun set_field :: "string \<Rightarrow> jsval \<Rightarrow> jsobj \<Rightarrow> jsobj" where
  "set_field k v [] = [(k, v)]"
| "set_field k v ((k', v') # rest) =
     (if k' = k then (k, v) # rest else (k', v') # set_field k v rest)"

text \<open>\<^verbatim>\<open>v.k\<close> on any value; reading a field of a primitive gives \<^verbatim>\<open>undefined\<close>.\<close>

fun js_member :: "jsval \<Rightarrow> string \<Rightarrow> jsval" where
  "js_member (JObj obj) k = field obj k"
| "js_member _ k = JUndefined"

text \<open>Truthiness, as \<^verbatim>\<open>if (v)\<close>, \<^verbatim>\<open>!v\<close> and \<^verbatim>\<open>a || b\<close> read it.\<close>

fun truthy :: "jsval \<Rightarrow> bool" where
  "truthy JUndefined = False"
| "truthy JNull = False"
| "truthy (JBool b) = b"
| "truthy (JNum r) = (r \<noteq> 0)"
| "truthy (JStr s) = (s \<noteq> [])"
| "truthy (JDate d) = True"
| "truthy (JArr xs) = True"
| "truthy (JObj obj) = True"

definition js_or :: "jsval \<Rightarrow> jsval \<Rightarrow> jsval" where
  "js_or a b = (if truthy a then a else b)"

text \<open>
  \<^verbatim>\<open>a === b\<close>. Primitives compare by value. Objects, arrays and dates compare by
  reference; wherever the gateway compares two values, one comes from the caller and the
  other from a fetched document, so two objects are never the same reference.
\<close>

fun strict_eq :: "jsval \<Rightarrow> jsval \<Rightarrow> bool" where
  "strict_eq JUndefined JUndefined = True"
| "strict_eq JNull JNull = True"
| "strict_eq (JBool a) (JBool b) = (a = b)"
| "strict_eq (JNum a) (JNum b) = (a = b)"
| "strict_eq (JStr a) (JStr b) = (a = b)"
| "strict_eq _ _ = False"

fun is_primitive :: "jsval \<Rightarrow> bool" where
  "is_primitive (JDate d) = False"
| "is_primitive (JArr xs) = False"
| "is_primitive (JObj obj) = False"
| "is_primitive _ = True"

section \<open>The environment: what the gateway calls and does not define\<close>

datatype coll = Clients | ServeAttempts | Cases | Documents

datatype query =
    QEqual string jsval
  | QOrderDesc string
  | QLimit nat
  | QOffset nat

text \<open>
  A request to the remote service. Every request the gateway awaits is recorded in the
  world's trace, in the order it is made, whether it succeeds or not.
\<close>

datatype call =
    ListDocuments coll "query list"
  | GetDocument coll jsval
  | CreateDocument coll jsval jsobj
  | UpdateDocument coll jsval jsobj
  | DeleteDocument coll jsval
  | DeleteFile jsval
  | CreateExecution string string

datatype error =
    RemoteError call
  | JsError string
  | TypeError
  | RangeError
  | SyntaxError
  | QuotaExceeded

datatype level = Warn | Err

text \<open>
  The library and platform functions the gateway uses are parameters: whether the
  service fails a request (decided from the requests made so far and the request
  itself, so any pattern of transient failures is an environment), how the service
  orders a listing, what an execution responds, JSON and Blob, the local storage quota,
  \<^verbatim>\<open>ID.unique()\<close>, the clock, \<^verbatim>\<open>Date\<close> parsing and printing (\<^verbatim>\<open>toISOString\<close>
  and the string conversion), the order the engine's sort gives an array when the
  comparator is not consistent (as ranks of the positions), number printing,
  \<^verbatim>\<open>toLowerCase\<close>, the text of an error, and \<^verbatim>\<open>createServeEmailBody\<close> (imported
  from \<^verbatim>\<open>@/utils/email\<close>; \<open>None\<close> when it throws).
\<close>

record env =
  fails :: "call list \<Rightarrow> call \<Rightarrow> bool"
  order_desc :: "string \<Rightarrow> jsobj list \<Rightarrow> jsobj list"
  exec_status :: "call list \<Rightarrow> call \<Rightarrow> jsval"
  json_stringify :: "jsval \<Rightarrow> string"
  json_parse :: "string \<Rightarrow> jsval option"
  blob_size :: "string \<Rightarrow> nat"
  set_item_fails :: "string \<Rightarrow> string \<Rightarrow> bool"
  unique :: "nat \<Rightarrow> string"
  now :: int
  date_parse :: "jsval \<Rightarrow> int option"
  iso_string :: "int \<Rightarrow> string"
  date_string :: "int \<Rightarrow> string"
  engine_rank :: "jsobj list \<Rightarrow> nat \<Rightarrow> nat"
  num_str :: "real \<Rightarrow> string"
  lower_case :: "string \<Rightarrow> string"
  error_message :: "error \<Rightarrow> string"
  email_body :: "jsval list \<Rightarrow> string option"

text \<open>
  The world the gateway acts on: the remote collections and the file bucket, the
  browser's local storage, the requests made, the console (warnings and errors, by
  the fixed text the message begins with; \<^verbatim>\<open>console.log\<close> progress lines are not kept), the
  window events dispatched, and the number of identifiers drawn.
\<close>

record world =
  store :: "coll \<Rightarrow> jsobj list"
  bucket :: "jsval list"
  local_storage :: "string \<Rightarrow> string option"
  trace :: "call list"
  console :: "(level \<times> string) list"
  events :: "string list"
  drawn :: nat

section \<open>Sequencing, exceptions and try/catch\<close>

type_synonym 'a io = "world \<Rightarrow> (error + 'a) \<times> world"

definition io_ret :: "'a \<Rightarrow> 'a io" where
  "io_ret x = (\<lambda>w. (Inr x, w))"

definition io_throw :: "error \<Rightarrow> 'a io" where
  "io_throw e = (\<lambda>w. (Inl e, w))"

definition io_bind :: "'a io \<Rightarrow> ('a \<Rightarrow> 'b io) \<Rightarrow> 'b io" where
  "io_bind m f = (\<lambda>w. case m w of (Inl e, w') \<Rightarrow> (Inl e, w') | (Inr x, w') \<Rightarrow> f x w')"

definition io_catch :: "'a io \<Rightarrow> (error \<Rightarrow> 'a io) \<Rightarrow> 'a io" where
  "io_catch m h = (\<lambda>w. case m w of (Inl e, w') \<Rightarrow> h e w' | (Inr x, w') \<Rightarrow> (Inr x, w'))"

definition console_warn :: "string \<Rightarrow> unit io" where
  "console_warn msg = (\<lambda>w. (Inr (), w\<lparr>console := console w @ [(Warn, msg)]\<rparr>))"

definition console_error :: "string \<Rightarrow> unit io" where
  "console_error msg = (\<lambda>w. (Inr (), w\<lparr>console := console w @ [(Err, msg)]\<rparr>))"

text \<open>\<^verbatim>\<open>for (const x of xs) { body }\<close>: the first exception leaving the body ends the loop.\<close>

fun for_each :: "('a \<Rightarrow> unit io) \<Rightarrow> 'a list \<Rightarrow> unit io" where
  "for_each body [] = io_ret ()"
| "for_each body (x # xs) = io_bind (body x) (\<lambda>_. for_each body xs)"

section \<open>The remote document store\<close>

text \<open>
  The service is not part of the repository. It is modelled as the gateway uses it: a
  listing filters by the \<^verbatim>\<open>Query.equal\<close> conditions, orders, skips the offset and
  cuts at the limit; a document is found by its \<^verbatim>\<open>$id\<close>; creating stores the payload
  under the identifier, updating overwrites the fields given, deleting removes the
  document; a request on a missing document, or creating an identifier twice, fails. A
  listing without \<^verbatim>\<open>Query.limit\<close> returns every match (the service's own page size is
  not modelled).
\<close>

fun q_matches :: "query list \<Rightarrow> jsobj \<Rightarrow> bool" where
  "q_matches [] d = True"
| "q_matches (QEqual a v # qs) d = (field d a = v \<and> q_matches qs d)"
| "q_matches (_ # qs) d = q_matches qs d"

fun q_order :: "query list \<Rightarrow> string option" where
  "q_order [] = None"
| "q_order (QOrderDesc a # qs) = Some a"
| "q_order (_ # qs) = q_order qs"

fun q_offset :: "query list \<Rightarrow> nat" where
  "q_offset [] = 0"
| "q_offset (QOffset n # qs) = n"
| "q_offset (_ # qs) = q_offset qs"

fun q_limit :: "query list \<Rightarrow> nat option" where
  "q_limit [] = None"
| "q_limit (QLimit n # qs) = Some n"
| "q_limit (_ # qs) = q_limit qs"

definition select_docs :: "env \<Rightarrow> query list \<Rightarrow> jsobj list \<Rightarrow> jsobj list" where
  "select_docs en qs ds =
     (let matching = filter (q_matches qs) ds;
          ordered = (case q_order qs of None \<Rightarrow> matching | Some a \<Rightarrow> order_desc en a matching);
          skipped = drop (q_offset qs) ordered
      in case q_limit qs of None \<Rightarrow> skipped | Some n \<Rightarrow> take n skipped)"

definition has_id :: "jsval \<Rightarrow> jsobj \<Rightarrow> bool" where
  "has_id i d = (field d ''$id'' = i)"

text \<open>
  A request: it is appended to the trace, then it fails if the environment says so,
  and otherwise does its work on the world.
\<close>

definition request :: "env \<Rightarrow> call \<Rightarrow> (world \<Rightarrow> (error + 'a) \<times> world) \<Rightarrow> 'a io" where
  "request en c work =
     (\<lambda>w. let w' = w\<lparr>trace := trace w @ [c]\<rparr>
          in if fails en (trace w) c then (Inl (RemoteError c), w') else work w')"

definition listDocuments :: "env \<Rightarrow> coll \<Rightarrow> query list \<Rightarrow> jsobj list io" where
  "listDocuments en c qs =
     request en (ListDocuments c qs) (\<lambda>w. (Inr (select_docs en qs (store w c)), w))"

definition getDocument :: "env \<Rightarrow> coll \<Rightarrow> jsval \<Rightarrow> jsobj io" where
  "getDocument en c i =
     request en (GetDocument c i)
       (\<lambda>w. case find (has_id i) (store w c) of
              None \<Rightarrow> (Inl (RemoteError (GetDocument c i)), w)
            | Some d \<Rightarrow> (Inr d, w))"

definition createDocument :: "env \<Rightarrow> coll \<Rightarrow> jsval \<Rightarrow> jsobj \<Rightarrow> jsobj io" where
  "createDocument en c i payload =
     request en (CreateDocument c i payload)
       (\<lambda>w. case find (has_id i) (store w c) of
              Some d \<Rightarrow> (Inl (RemoteError (CreateDocument c i payload)), w)
            | None \<Rightarrow>
                (let d = (''$id'', i) # payload
                 in (Inr d, w\<lparr>store := (store w)(c := store w c @ [d])\<rparr>)))"

definition merge_fields :: "jsobj \<Rightarrow> jsobj \<Rightarrow> jsobj" where
  "merge_fields d changes = fold (\<lambda>(k, v) acc. set_field k v acc) changes d"

definition updateDocument :: "env \<Rightarrow> coll \<Rightarrow> jsval \<Rightarrow> jsobj \<Rightarrow> jsobj io" where
  "updateDocument en c i changes =
     request en (UpdateDocument c i changes)
       (\<lambda>w. case find (has_id i) (store w c) of
              None \<Rightarrow> (Inl (RemoteError (UpdateDocument c i changes)), w)
            | Some d \<Rightarrow>
                (let d' = merge_fields d changes
                 in (Inr d',
                     w\<lparr>store := (store w)
                         (c := map (\<lambda>x. if has_id i x then d' else x) (store w c))\<rparr>)))"

definition deleteDocument :: "env \<Rightarrow> coll \<Rightarrow> jsval \<Rightarrow> unit io" where
  "deleteDocument en c i =
     request en (DeleteDocument c i)
       (\<lambda>w. case find (has_id i) (store w c) of
              None \<Rightarrow> (Inl (RemoteError (DeleteDocument c i)), w)
            | Some d \<Rightarrow>
                (Inr (), w\<lparr>store := (store w)(c := filter (\<lambda>x. \<not> has_id i x) (store w c))\<rparr>))"

definition deleteFile :: "env \<Rightarrow> jsval \<Rightarrow> unit io" where
  "deleteFile en f =
     request en (DeleteFile f)
       (\<lambda>w. if f \<in> set (bucket w)
            then (Inr (), w\<lparr>bucket := filter (\<lambda>x. x \<noteq> f) (bucket w)\<rparr>)
            else (Inl (RemoteError (DeleteFile f)), w))"

text \<open>
  \<^verbatim>\<open>functions.createExecution(id, body)\<close>: the response object, of which the gateway
  reads the status only.
\<close>

definition createExecution :: "env \<Rightarrow> string \<Rightarrow> string \<Rightarrow> jsobj io" where
  "createExecution en fn body =
     request en (CreateExecution fn body)
       (\<lambda>w. (Inr [(''status'', exec_status en (butlast (trace w)) (CreateExecution fn body))], w))"

section \<open>Listing\<close>

text \<open>
  The record the gateway builds from a stored serve attempt. The three places that
  build it (\<^verbatim>\<open>getServeAttempts\<close>, \<^verbatim>\<open>getClientServeAttempts\<close>,
  \<^verbatim>\<open>syncAppwriteServesToLocal\<close>) differ in the \<^verbatim>\<open>imageData\<close> entry only, given here
  as \<open>img\<close>.
\<close>

definition format_serve :: "env \<Rightarrow> jsval \<Rightarrow> jsobj \<Rightarrow> jsobj" where
  "format_serve en img doc =
     [(''id'', field doc ''$id''),
      (''clientId'', js_or (field doc ''client_id'') (JStr ''unknown'')),
      (''clientName'', js_or (field doc ''client_name'') (JStr ''Unknown Client'')),
      (''caseNumber'', js_or (field doc ''case_number'') (JStr ''Unknown'')),
      (''caseName'', js_or (field doc ''case_name'') (JStr ''Unknown Case'')),
      (''coordinates'', js_or (field doc ''coordinates'') JNull),
      (''notes'', js_or (field doc ''notes'') (JStr '''')),
      (''status'', js_or (field doc ''status'') (JStr ''unknown'')),
      (''timestamp'',
         if truthy (field doc ''timestamp'')
         then JDate (date_parse en (field doc ''timestamp''))
         else JDate (Some (now en))),
      (''attemptNumber'', js_or (field doc ''attempt_number'') (JNum 1)),
      (''imageData'', img),
      (''address'', js_or (field doc ''address'') (JStr ''''))]"

text \<open>\<^verbatim>\<open>getClients\<close>: logs and rethrows.\<close>

definition getClients :: "env \<Rightarrow> jsobj list io" where
  "getClients en =
     io_catch (listDocuments en Clients [])
       (\<lambda>error. io_bind (console_error ''Error fetching clients:'') (\<lambda>_. io_throw error))"

text \<open>
  \<^verbatim>\<open>getServeAttempts(limit = 50, offset = 0)\<close>: the image of a record is kept when
  \<^verbatim>\<open>offset === 0\<close>, whatever the record's position.
\<close>

definition getServeAttempts :: "env \<Rightarrow> nat \<Rightarrow> nat \<Rightarrow> jsobj list io" where
  "getServeAttempts en limit offset =
     io_catch
       (io_bind
          (listDocuments en ServeAttempts
             [QOrderDesc ''timestamp'', QLimit limit, QOffset offset])
          (\<lambda>documents.
             io_ret
               (map (\<lambda>doc. format_serve en
                       (if offset = 0 then js_or (field doc ''image_data'') JNull else JNull)
                       doc)
                  documents)))
       (\<lambda>error. io_bind (console_error ''Error fetching serve attempts:'') (\<lambda>_. io_ret []))"

text \<open>
  \<^verbatim>\<open>Array.prototype.sort\<close> with the comparator
  \<^verbatim>\<open>(a, b) => b.timestamp.getTime() - a.timestamp.getTime()\<close>. When every record has
  a valid date the comparator is consistent, and the result is the one stable sort by
  it: descending time, records of equal time in their order. With an invalid date the
  comparator yields NaN and is not consistent; the language then leaves the order to
  the engine. The result is still a permutation of the records: the one the
  environment's ranks of the positions give.
\<close>

fun get_time :: "jsval \<Rightarrow> int option" where
  "get_time (JDate d) = d"
| "get_time _ = None"

definition by_time_desc :: "jsobj \<Rightarrow> jsobj \<Rightarrow> int" where
  "by_time_desc a b =
     (case (get_time (field b ''timestamp''), get_time (field a ''timestamp'')) of
        (Some tb, Some ta) \<Rightarrow> tb - ta
      | _ \<Rightarrow> 0)"

fun insert_sorted :: "('a \<Rightarrow> 'a \<Rightarrow> int) \<Rightarrow> 'a \<Rightarrow> 'a list \<Rightarrow> 'a list" where
  "insert_sorted cmp x [] = [x]"
| "insert_sorted cmp x (y # ys) =
     (if cmp x y \<le> 0 then x # y # ys else y # insert_sorted cmp x ys)"

definition js_sort :: "('a \<Rightarrow> 'a \<Rightarrow> int) \<Rightarrow> 'a list \<Rightarrow> 'a list" where
  "js_sort cmp xs = foldr (insert_sorted cmp) xs []"

definition valid_times :: "jsobj list \<Rightarrow> bool" where
  "valid_times xs = list_all (\<lambda>x. get_time (field x ''timestamp'') \<noteq> None) xs"

definition engine_order :: "env \<Rightarrow> jsobj list \<Rightarrow> jsobj list" where
  "engine_order en xs =
     map snd (sort_key fst (zip (map (engine_rank en xs) [0..<length xs]) xs))"

definition sort_by_time_desc :: "env \<Rightarrow> jsobj list \<Rightarrow> jsobj list" where
  "sort_by_time_desc en xs =
     (if valid_times xs then js_sort by_time_desc xs else engine_order en xs)"

definition getClientServeAttempts :: "env \<Rightarrow> jsval \<Rightarrow> jsobj list io" where
  "getClientServeAttempts en clientId =
     io_catch
       (io_bind (listDocuments en ServeAttempts [QEqual ''client_id'' clientId])
          (\<lambda>documents.
             io_ret
               (sort_by_time_desc en
                  (map (\<lambda>doc. format_serve en (js_or (field doc ''image_data'') JNull) doc)
                     documents))))
       (\<lambda>error.
          io_bind (console_error ''Error fetching serve attempts for client'') (\<lambda>_. io_ret []))"

definition getClientCases :: "env \<Rightarrow> jsval \<Rightarrow> jsobj list io" where
  "getClientCases en clientId =
     io_catch (listDocuments en Cases [QEqual ''client_id'' clientId])
       (\<lambda>error. io_bind (console_error ''Error fetching cases for client'') (\<lambda>_. io_ret []))"

definition getClientDocuments :: "env \<Rightarrow> jsval \<Rightarrow> jsval \<Rightarrow> jsobj list io" where
  "getClientDocuments en clientId caseNumber =
     io_catch
       (listDocuments en Documents
          ([QEqual ''client_id'' clientId]
           @ (if truthy caseNumber then [QEqual ''case_number'' caseNumber] else [])))
       (\<lambda>error. io_bind (console_error ''Error fetching documents for client'') (\<lambda>_. io_ret []))"

section \<open>Deleting\<close>

definition deleteClientCase :: "env \<Rightarrow> jsval \<Rightarrow> bool io" where
  "deleteClientCase en caseId =
     io_catch (io_bind (deleteDocument en Cases caseId) (\<lambda>_. io_ret True))
       (\<lambda>error. io_bind (console_error ''Error deleting client case:'') (\<lambda>_. io_throw error))"

text \<open>\<^verbatim>\<open>deleteServeAttempt\<close>: a falsy identifier is warned about and nothing is requested.\<close>

definition deleteServeAttempt :: "env \<Rightarrow> jsval \<Rightarrow> bool io" where
  "deleteServeAttempt en serveId =
     io_catch
       (if \<not> truthy serveId
        then io_bind (console_warn ''Invalid serveId provided to deleteServeAttempt:'')
               (\<lambda>_. io_ret False)
        else io_bind (deleteDocument en ServeAttempts serveId) (\<lambda>_. io_ret True))
       (\<lambda>error. io_bind (console_error ''Error deleting serve attempt'') (\<lambda>_. io_throw error))"

text \<open>
  String conversion, as a template literal and \<^verbatim>\<open>RegExp.test\<close> apply it to their
  argument.
\<close>

fun join_commas :: "string list \<Rightarrow> string" where
  "join_commas [] = []"
| "join_commas [x] = x"
| "join_commas (x # y # ys) = x @ '','' @ join_commas (y # ys)"

fun to_str :: "env \<Rightarrow> jsval \<Rightarrow> string" where
  "to_str en JUndefined = ''undefined''"
| "to_str en JNull = ''null''"
| "to_str en (JBool b) = (if b then ''true'' else ''false'')"
| "to_str en (JNum r) = num_str en r"
| "to_str en (JStr s) = s"
| "to_str en (JDate d) = (case d of None \<Rightarrow> ''Invalid Date'' | Some t \<Rightarrow> date_string en t)"
| "to_str en (JArr xs) =
     join_commas (map (\<lambda>x. if x = JUndefined \<or> x = JNull then [] else to_str en x) xs)"
| "to_str en (JObj obj) = ''[object Object]''"

text \<open>\<^verbatim>\<open>/^[a-zA-Z0-9_]{1,36}$/\<close>\<close>

definition word_char :: "char \<Rightarrow> bool" where
  "word_char c =
     (let n = (of_char c :: nat)
      in (48 \<le> n \<and> n \<le> 57) \<or> (65 \<le> n \<and> n \<le> 90) \<or> n = 95 \<or> (97 \<le> n \<and> n \<le> 122))"

definition file_id_pattern :: "string \<Rightarrow> bool" where
  "file_id_pattern s = (1 \<le> length s \<and> length s \<le> 36 \<and> list_all word_char s)"

text \<open>
  \<^verbatim>\<open>!/.../.test(fileId) || fileId.startsWith('_')\<close>: the test converts its argument
  to a string; \<^verbatim>\<open>startsWith\<close> exists on strings only.
\<close>

definition file_id_invalid :: "env \<Rightarrow> jsval \<Rightarrow> bool io" where
  "file_id_invalid en fileId =
     (if \<not> file_id_pattern (to_str en fileId) then io_ret True
      else case fileId of
             JStr s \<Rightarrow> io_ret (take 1 s = ''_'')
           | _ \<Rightarrow> io_throw TypeError)"

definition deleteClientDocument :: "env \<Rightarrow> jsval \<Rightarrow> jsval \<Rightarrow> bool io" where
  "deleteClientDocument en docId fileId =
     io_catch
       (io_bind
          (if truthy fileId
           then io_bind (file_id_invalid en fileId)
                  (\<lambda>invalid.
                     if invalid then console_warn ''Invalid fileId. Skipping file deletion.''
                     else deleteFile en fileId)
           else io_ret ())
          (\<lambda>_. io_bind (deleteDocument en Documents docId) (\<lambda>_. io_ret True)))
       (\<lambda>error. io_bind (console_error ''Error deleting client document:'') (\<lambda>_. io_throw error))"

text \<open>
  \<^verbatim>\<open>deleteClient\<close>. The three loops read \<^verbatim>\<open>$id\<close> of each item. The cases and the
  documents are the stored documents; the serve attempts are the records
  \<^verbatim>\<open>getClientServeAttempts\<close> built, whose identifier is in \<^verbatim>\<open>id\<close>.
\<close>

definition deleteClient :: "env \<Rightarrow> jsval \<Rightarrow> bool io" where
  "deleteClient en clientId =
     io_catch
       (io_bind (getClientCases en clientId) (\<lambda>cases.
        io_bind
          (for_each
             (\<lambda>caseDoc.
                io_catch
                  (io_bind (deleteClientCase en (field caseDoc ''$id'')) (\<lambda>_. io_ret ()))
                  (\<lambda>caseError. console_error ''Error deleting case''))
             cases) (\<lambda>_.
        io_bind (getClientServeAttempts en clientId) (\<lambda>serves.
        io_bind
          (for_each
             (\<lambda>serve.
                io_catch
                  (io_bind (deleteServeAttempt en (field serve ''$id'')) (\<lambda>_. io_ret ()))
                  (\<lambda>serveError. console_error ''Error deleting serve attempt''))
             serves) (\<lambda>_.
        io_bind (getClientDocuments en clientId JUndefined) (\<lambda>documents.
        io_bind
          (for_each
             (\<lambda>doc.
                io_catch
                  (io_bind
                     (deleteClientDocument en (field doc ''$id'')
                        (js_or (field doc ''file_path'') (field doc ''filePath'')))
                     (\<lambda>_. io_ret ()))
                  (\<lambda>docError. console_error ''Error deleting document''))
             documents) (\<lambda>_.
        io_bind (deleteDocument en Clients clientId) (\<lambda>_. io_ret True))))))))
       (\<lambda>error.
          io_bind (console_error ''Error in client deletion process:'') (\<lambda>_. io_throw error))"

section \<open>Local storage, identifiers, notification\<close>

definition getItem :: "string \<Rightarrow> jsval io" where
  "getItem k = (\<lambda>w. (Inr (case local_storage w k of None \<Rightarrow> JNull | Some s \<Rightarrow> JStr s), w))"

definition setItem :: "env \<Rightarrow> string \<Rightarrow> string \<Rightarrow> unit io" where
  "setItem en k v =
     (\<lambda>w. if set_item_fails en k v then (Inl QuotaExceeded, w)
          else (Inr (), w\<lparr>local_storage := (local_storage w)(k \<mapsto> v)\<rparr>))"

definition dispatchEvent :: "string \<Rightarrow> unit io" where
  "dispatchEvent name = (\<lambda>w. (Inr (), w\<lparr>events := events w @ [name]\<rparr>))"

definition ID_unique :: "env \<Rightarrow> string io" where
  "ID_unique en = (\<lambda>w. (Inr (unique en (drawn w)), w\<lparr>drawn := Suc (drawn w)\<rparr>))"

definition JSON_parse :: "env \<Rightarrow> string \<Rightarrow> jsval io" where
  "JSON_parse en s = (case json_parse en s of None \<Rightarrow> io_throw SyntaxError | Some v \<Rightarrow> io_ret v)"

definition toISOString :: "env \<Rightarrow> jsval \<Rightarrow> string io" where
  "toISOString en d =
     (case d of
        JDate (Some t) \<Rightarrow> io_ret (iso_string en t)
      | JDate None \<Rightarrow> io_throw RangeError
      | _ \<Rightarrow> io_throw TypeError)"

definition createServeEmailBody :: "env \<Rightarrow> jsval list \<Rightarrow> string io" where
  "createServeEmailBody en args =
     (case email_body en args of
        None \<Rightarrow> io_throw (JsError ''createServeEmailBody'')
      | Some html \<Rightarrow> io_ret html)"

definition businessEmail :: string where
  "businessEmail = ''info@justlegalsolutions.org''"

text \<open>
  \<^verbatim>\<open>recipients.some(email => email.toLowerCase() === businessEmail.toLowerCase())\<close>:
  stops at the first match; a recipient that is not a string has no
  \<^verbatim>\<open>toLowerCase\<close>.
\<close>

fun some_business :: "env \<Rightarrow> jsval list \<Rightarrow> bool io" where
  "some_business en [] = io_ret False"
| "some_business en (JStr email # rest) =
     (if lower_case en email = lower_case en businessEmail then io_ret True
      else some_business en rest)"
| "some_business en (_ # rest) = io_throw TypeError"

definition sendEmailViaFunction :: "env \<Rightarrow> jsobj \<Rightarrow> jsobj io" where
  "sendEmailViaFunction en emailData =
     io_catch
       (let recipients = (case field emailData ''to'' of JArr xs \<Rightarrow> xs | v \<Rightarrow> [v])
        in io_bind (some_business en recipients) (\<lambda>found.
           let recipients' = (if \<not> found then recipients @ [JStr businessEmail] else recipients)
           in io_bind
                (createExecution en ''67ed8899003a8b119a18''
                   (json_stringify en (JObj (set_field ''to'' (JArr recipients') emailData))))
                (\<lambda>response.
                   if strict_eq (field response ''status'') (JStr ''completed'')
                   then io_ret [(''success'', JBool True),
                                (''message'', JStr ''Email sent successfully'')]
                   else io_bind (console_error ''Email function execution failed:'')
                          (\<lambda>_. io_ret [(''success'', JBool False),
                                        (''message'', JStr ''Email function execution failed'')]))))
       (\<lambda>error.
          io_bind (console_error ''Error calling email function:'')
            (\<lambda>_. io_ret [(''success'', JBool False),
                          (''message'', JStr (error_message en error))]))"

section \<open>The local cache\<close>

text \<open>
  \<^verbatim>\<open>syncAppwriteServesToLocal\<close>. \<^verbatim>\<open>response.documents.indexOf(doc)\<close> finds the
  document by reference, so it is the document's position. The size in megabytes is
  the Blob's byte count divided by \<^verbatim>\<open>1024 * 1024\<close>. Over five, the sync warns and \<^verbatim>\<open>forEach\<close>
  overwrites \<^verbatim>\<open>imageData\<close> of every record.
\<close>

definition frontend_serves :: "env \<Rightarrow> jsobj list \<Rightarrow> jsobj list" where
  "frontend_serves en documents =
     map (\<lambda>(i, doc).
            format_serve en
              (if i < 20 then js_or (field doc ''image_data'') JNull else JNull) doc)
       (enumerate 0 documents)"

definition syncAppwriteServesToLocal :: "env \<Rightarrow> bool io" where
  "syncAppwriteServesToLocal en =
     io_catch
       (io_bind (listDocuments en ServeAttempts [QOrderDesc ''timestamp'', QLimit 100])
          (\<lambda>documents.
             if documents = [] then io_ret False
             else
               let frontendServes = frontend_serves en documents;
                   dataString = json_stringify en (JArr (map JObj frontendServes));
                   sizeInMB = real (blob_size en dataString) / (1024 * 1024);
                   frontendServes' =
                     (if sizeInMB > 5
                      then map (set_field ''imageData'' JNull) frontendServes
                      else frontendServes)
               in io_bind (if sizeInMB > 5 then console_warn ''Data size is'' else io_ret ())
                    (\<lambda>_.
                  io_bind
                    (setItem en ''serve-tracker-serves''
                       (json_stringify en (JArr (map JObj frontendServes'))))
                    (\<lambda>_. io_bind (dispatchEvent ''serves-updated'') (\<lambda>_. io_ret True)))))
       (\<lambda>error.
          io_bind (console_error ''Error syncing serve attempts from Appwrite:'')
            (\<lambda>_. io_ret False))"

section \<open>Creating a serve attempt\<close>

definition resolve_client_name :: "env \<Rightarrow> jsobj \<Rightarrow> jsval io" where
  "resolve_client_name en serveData =
     (let clientName = js_or (field serveData ''clientName'') (JStr ''Unknown Client'')
      in if strict_eq clientName (JStr ''Unknown Client'')
         then io_catch
                (io_bind (getDocument en Clients (field serveData ''clientId''))
                   (\<lambda>client.
                      io_ret (if truthy (field client ''name'') then field client ''name''
                              else clientName)))
                (\<lambda>clientError.
                   io_bind (console_warn ''Could not fetch client name:'')
                     (\<lambda>_. io_ret clientName))
         else io_ret clientName)"

text \<open>
  The coordinates written to the remote document: \<^verbatim>\<open>"0,0"\<close> unless the input's are
  truthy and either a string, or a value whose \<^verbatim>\<open>latitude\<close> and \<^verbatim>\<open>longitude\<close> are
  both defined.
\<close>

definition normalize_coordinates :: "env \<Rightarrow> jsval \<Rightarrow> jsval" where
  "normalize_coordinates en c =
     (if truthy c
      then (case c of
              JStr s \<Rightarrow> JStr s
            | _ \<Rightarrow>
                if js_member c ''latitude'' \<noteq> JUndefined \<and> js_member c ''longitude'' \<noteq> JUndefined
                then JStr (to_str en (js_member c ''latitude'') @ '','' @
                           to_str en (js_member c ''longitude''))
                else JStr ''0,0'')
      else JStr ''0,0'')"

definition timestamp_iso :: "env \<Rightarrow> jsval \<Rightarrow> string io" where
  "timestamp_iso en ts =
     (if truthy ts
      then (case ts of
              JDate d \<Rightarrow> toISOString en (JDate d)
            | _ \<Rightarrow> toISOString en (JDate (date_parse en ts)))
      else toISOString en (JDate (Some (now en))))"

definition serve_payload :: "env \<Rightarrow> jsobj \<Rightarrow> jsval \<Rightarrow> string \<Rightarrow> jsobj" where
  "serve_payload en serveData clientName ts =
     [(''client_id'', field serveData ''clientId''),
      (''client_name'', clientName),
      (''case_number'', js_or (field serveData ''caseNumber'') (JStr ''Not Specified'')),
      (''case_name'', js_or (field serveData ''caseName'') (JStr ''Unknown Case'')),
      (''status'', js_or (field serveData ''status'') (JStr ''unknown'')),
      (''notes'', js_or (field serveData ''notes'') (JStr '''')),
      (''address'',
         js_or (field serveData ''address'')
           (case field serveData ''coordinates'' of
              JStr s \<Rightarrow> JStr (''Coordinates: '' @ s)
            | _ \<Rightarrow> JStr ''Address not provided'')),
      (''coordinates'', normalize_coordinates en (field serveData ''coordinates'')),
      (''image_data'', js_or (field serveData ''imageData'') (JStr '''')),
      (''timestamp'', JStr ts),
      (''attempt_number'', js_or (field serveData ''attemptNumber'') (JNum 1))]"

definition email_args :: "env \<Rightarrow> jsobj \<Rightarrow> jsval list" where
  "email_args en response =
     [field response ''client_name'', field response ''address'', field response ''notes'',
      JDate (date_parse en (field response ''timestamp'')), field response ''coordinates'',
      field response ''attempt_number'', field response ''case_name'']"

definition notify_created :: "env \<Rightarrow> jsobj \<Rightarrow> jsobj \<Rightarrow> unit io" where
  "notify_created en serveData response =
     io_catch
       (io_bind (createServeEmailBody en (email_args en response)) (\<lambda>emailBody.
        let statusText =
              (if strict_eq (field response ''status'') (JStr ''completed'')
               then ''Successful'' else ''Failed'');
            emailData =
              [(''to'', js_or (field serveData ''clientEmail'') (JStr ''info@justlegalsolutions.org'')),
               (''subject'',
                  JStr (''New Serve Attempt '' @ statusText @ '' - '' @
                        to_str en (field response ''case_name''))),
               (''html'', JStr emailBody),
               (''imageData'', field response ''image_data''),
               (''coordinates'', field response ''coordinates''),
               (''notes'', field response ''notes''),
               (''status'', field response ''status'')]
        in io_bind (sendEmailViaFunction en emailData) (\<lambda>emailResult.
           if truthy (field emailResult ''success'') then io_ret ()
           else console_error ''Failed to send email:'')))
       (\<lambda>emailError. console_error ''Error sending email notification:'')"

text \<open>The body of the outer \<^verbatim>\<open>try\<close> of \<^verbatim>\<open>createServeAttempt\<close>.\<close>

definition createServeAttempt_try :: "env \<Rightarrow> jsobj \<Rightarrow> jsobj io" where
  "createServeAttempt_try en serveData =
     (if \<not> truthy (field serveData ''clientId'')
         \<or> strict_eq (field serveData ''clientId'') (JStr ''unknown'')
      then io_throw (JsError ''Valid client ID is required for serve attempts.'')
      else
        io_bind (resolve_client_name en serveData) (\<lambda>clientName.
        io_bind (ID_unique en) (\<lambda>documentId.
        io_bind (timestamp_iso en (field serveData ''timestamp'')) (\<lambda>ts.
        io_bind
          (createDocument en ServeAttempts (JStr documentId)
             (serve_payload en serveData clientName ts)) (\<lambda>response.
        let response' =
              (if truthy (field serveData ''clientEmail'')
               then set_field ''clientEmail'' (field serveData ''clientEmail'') response
               else response)
        in io_bind (notify_created en serveData response') (\<lambda>_. io_ret response'))))))"

text \<open>The record the fallback stores locally, under the identifier drawn for it.\<close>

definition local_serve :: "env \<Rightarrow> jsobj \<Rightarrow> string \<Rightarrow> jsobj" where
  "local_serve en serveData newId =
     [(''id'', JStr newId),
      (''clientId'', field serveData ''clientId''),
      (''clientName'', js_or (field serveData ''clientName'') (JStr ''Unknown Client'')),
      (''clientEmail'', field serveData ''clientEmail''),
      (''caseNumber'', js_or (field serveData ''caseNumber'') (JStr ''Unknown'')),
      (''caseName'', js_or (field serveData ''caseName'') (JStr ''Unknown Case'')),
      (''coordinates'', js_or (field serveData ''coordinates'') JNull),
      (''notes'', js_or (field serveData ''notes'') (JStr '''')),
      (''status'', js_or (field serveData ''status'') (JStr ''unknown'')),
      (''timestamp'', JDate (Some (now en))),
      (''attemptNumber'', js_or (field serveData ''attemptNumber'') (JNum 1)),
      (''imageData'', js_or (field serveData ''imageData'') JNull),
      (''address'', js_or (field serveData ''address'') (JStr ''''))]"

text \<open>
  The inner \<^verbatim>\<open>try\<close> of the handler: parse the stored list (\<^verbatim>\<open>"[]"\<close> when the key
  is absent or empty), push the new record, store the list, return the record.
  \<^verbatim>\<open>push\<close> exists on arrays only.
\<close>

definition local_fallback :: "env \<Rightarrow> jsobj \<Rightarrow> jsobj io" where
  "local_fallback en serveData =
     io_bind (getItem ''serve-tracker-serves'') (\<lambda>item.
     io_bind (JSON_parse en (case js_or item (JStr ''[]'') of JStr s \<Rightarrow> s | _ \<Rightarrow> ''[]''))
       (\<lambda>serveAttempts.
     io_bind (ID_unique en) (\<lambda>newId.
     let newServe = local_serve en serveData newId
     in case serveAttempts of
          JArr xs \<Rightarrow>
            io_bind
              (setItem en ''serve-tracker-serves'' (json_stringify en (JArr (xs @ [JObj newServe]))))
              (\<lambda>_. io_ret newServe)
        | _ \<Rightarrow> io_throw TypeError)))"

definition createServeAttempt_catch :: "env \<Rightarrow> jsobj \<Rightarrow> error \<Rightarrow> jsobj io" where
  "createServeAttempt_catch en serveData error =
     io_bind (console_error ''Error creating serve attempt:'') (\<lambda>_.
     io_catch (local_fallback en serveData)
       (\<lambda>localError.
          io_bind (console_error ''Failed local storage fallback:'') (\<lambda>_. io_throw error)))"

definition createServeAttempt :: "env \<Rightarrow> jsobj \<Rightarrow> jsobj io" where
  "createServeAttempt en serveData =
     io_catch (createServeAttempt_try en serveData) (createServeAttempt_catch en serveData)"

section \<open>Updating a serve attempt\<close>

text \<open>
  The write payload: a field enters it when the input's is not \<^verbatim>\<open>undefined\<close> and
  differs from the stored one.
\<close>

definition diff_field :: "jsobj \<Rightarrow> string \<Rightarrow> jsobj \<Rightarrow> string \<Rightarrow> jsobj \<Rightarrow> jsobj" where
  "diff_field serveData k originalDoc k' updateData =
     (if field serveData k \<noteq> JUndefined \<and> \<not> strict_eq (field serveData k) (field originalDoc k')
      then set_field k' (field serveData k) updateData
      else updateData)"

definition update_data :: "jsobj \<Rightarrow> jsobj \<Rightarrow> jsobj" where
  "update_data serveData originalDoc =
     diff_field serveData ''caseName'' originalDoc ''case_name''
       (diff_field serveData ''caseNumber'' originalDoc ''case_number''
          (diff_field serveData ''status'' originalDoc ''status''
             (diff_field serveData ''notes'' originalDoc ''notes'' [])))"

definition notify_updated :: "env \<Rightarrow> jsobj \<Rightarrow> unit io" where
  "notify_updated en response =
     io_catch
       (io_bind (getDocument en Clients (field response ''client_id'')) (\<lambda>client.
        let clientEmail = field client ''email''
        in if truthy clientEmail
           then io_bind (createServeEmailBody en (email_args en response)) (\<lambda>emailBody.
                let emailData =
                      [(''to'', clientEmail),
                       (''subject'',
                          JStr (''Serve Attempt Updated - '' @
                                to_str en (field response ''case_name''))),
                       (''html'', JStr emailBody),
                       (''imageData'', field response ''image_data''),
                       (''coordinates'', field response ''coordinates''),
                       (''notes'', field response ''notes''),
                       (''status'', field response ''status'')]
                in io_bind (sendEmailViaFunction en emailData) (\<lambda>_. io_ret ()))
           else io_ret ()))
       (\<lambda>emailError. console_error ''Error sending update email notification:'')"

text \<open>
  \<^verbatim>\<open>typeof serveId === 'object' ? (serveId.id || serveId.$id) : serveId\<close>;
  \<^verbatim>\<open>typeof null\<close> is \<^verbatim>\<open>'object'\<close>, and reading a field of \<^verbatim>\<open>null\<close> throws.
\<close>

definition doc_id_of :: "jsval \<Rightarrow> jsval io" where
  "doc_id_of serveId =
     (if serveId = JNull then io_throw TypeError
      else if is_primitive serveId then io_ret serveId
      else io_ret (js_or (js_member serveId ''id'') (js_member serveId ''$id'')))"

definition updateServeAttempt :: "env \<Rightarrow> jsval \<Rightarrow> jsobj \<Rightarrow> jsobj io" where
  "updateServeAttempt en serveId serveData =
     io_catch
       (io_bind (doc_id_of serveId) (\<lambda>docId.
        if \<not> truthy docId then io_throw (JsError ''Valid serve ID is required for updating'')
        else
          io_bind (getDocument en ServeAttempts docId) (\<lambda>originalDoc.
          let updateData = update_data serveData originalDoc
          in if length updateData > 0
             then io_bind (updateDocument en ServeAttempts docId updateData) (\<lambda>response.
                  io_bind (notify_updated en response) (\<lambda>_.
                  io_bind (syncAppwriteServesToLocal en) (\<lambda>_.
                  io_ret response)))
             else io_ret originalDoc)))
       (\<lambda>error. io_bind (console_error ''Error updating serve attempt:'') (\<lambda>_. io_throw error))"

section \<open>Resolving a client reference\<close>

definition resolveClientId :: "env \<Rightarrow> jsval \<Rightarrow> jsval io" where
  "resolveClientId en fallbackClientId =
     io_catch
       (io_bind (listDocuments en Cases [QEqual ''client_id'' fallbackClientId]) (\<lambda>cases.
        if length cases > 0 then io_ret fallbackClientId
        else
          io_bind (listDocuments en Documents [QEqual ''client_id'' fallbackClientId])
            (\<lambda>documents.
          if length documents > 0 then io_ret fallbackClientId
          else
            io_bind (listDocuments en ServeAttempts [QEqual ''client_id'' fallbackClientId])
              (\<lambda>serves.
            if length serves > 0 then io_ret fallbackClientId
            else io_bind (console_warn ''Unable to resolve client ID for fallback client_id'')
                   (\<lambda>_. io_ret JNull)))))
       (\<lambda>error.
          io_bind (console_error ''Error resolving client ID for fallback client_id'')
            (\<lambda>_. io_ret JNull))"

section \<open>What the properties speak about\<close>

text \<open>
  \<open>grows part P m\<close>: whatever the world, \<open>m\<close> leaves the list \<open>part\<close> of the world as
  it was and appends to it only elements that satisfy \<open>P\<close>. With \<open>trace\<close> for
  \<open>part\<close>: every request \<open>m\<close> makes satisfies \<open>P\<close>. \<open>keeps part m\<close>: \<open>m\<close> leaves
  that part of the world unchanged.
\<close>

definition grows :: "(world \<Rightarrow> 'x list) \<Rightarrow> ('x \<Rightarrow> bool) \<Rightarrow> 'a io \<Rightarrow> bool" where
  "grows part P m = (\<forall>w. \<exists>xs. part (snd (m w)) = part w @ xs \<and> list_all P xs)"

definition keeps :: "(world \<Rightarrow> 'x) \<Rightarrow> 'a io \<Rightarrow> bool" where
  "keeps part m = (\<forall>w. part (snd (m w)) = part w)"

text \<open>The stored serve attempts.\<close>

definition serves_of :: "world \<Rightarrow> jsobj list" where
  "serves_of w = store w ServeAttempts"

text \<open>
  A request an update may make: reads and executions, and a write to a serve attempt
  whose payload has no field but notes, status, case number and case name.
\<close>

fun update_only :: "call \<Rightarrow> bool" where
  "update_only (ListDocuments c qs) = True"
| "update_only (GetDocument c i) = True"
| "update_only (CreateExecution fn body) = True"
| "update_only (UpdateDocument c i changes) =
     (c = ServeAttempts \<and>
      set (map fst changes) \<subseteq> {''notes'', ''status'', ''case_number'', ''case_name''})"
| "update_only _ = False"

text \<open>A request that does not delete a serve attempt.\<close>

fun keeps_serves :: "call \<Rightarrow> bool" where
  "keeps_serves (DeleteDocument c i) = (c \<noteq> ServeAttempts)"
| "keeps_serves _ = True"

text \<open>The fields an update compares: the input's name and the stored document's.\<close>

definition diffable :: "(string \<times> string) list" where
  "diffable = [(''notes'', ''notes''), (''status'', ''status''),
               (''caseNumber'', ''case_number''), (''caseName'', ''case_name'')]"

text \<open>Some document of the collection refers to the client.\<close>

definition references :: "world \<Rightarrow> coll \<Rightarrow> jsval \<Rightarrow> bool" where
  "references w c clientId = (\<exists>d \<in> set (store w c). field d ''client_id'' = clientId)"

definition by_client :: "jsval \<Rightarrow> query list" where
  "by_client clientId = [QEqual ''client_id'' clientId]"

text \<open>The image payload of the record at a position of a listing's result.\<close>

definition image_at :: "nat \<Rightarrow> (error + jsobj list) \<times> world \<Rightarrow> jsval option" where
  "image_at i r =
     (case fst r of
        Inl e \<Rightarrow> None
      | Inr rs \<Rightarrow> if i < length rs then Some (field (rs ! i) ''imageData'') else None)"

text \<open>The string the fallback of a creation parses: the stored list, or \<^verbatim>\<open>"[]"\<close>.\<close>

definition stored_serves :: "world \<Rightarrow> string" where
  "stored_serves w =
     (case local_storage w ''serve-tracker-serves'' of
        None \<Rightarrow> ''[]''
      | Some s \<Rightarrow> if s = [] then ''[]'' else s)"

text \<open>The coordinates of the stored serve attempts.\<close>

definition stored_coordinates :: "world \<Rightarrow> jsval list" where
  "stored_coordinates w = map (\<lambda>d. field d ''coordinates'') (serves_of w)"

text \<open>The coordinates of the record a creation returns; none when it throws.\<close>

definition result_coordinates :: "(error + jsobj) \<times> world \<Rightarrow> jsval option" where
  "result_coordinates out =
     (case fst out of Inl e \<Rightarrow> None | Inr r \<Rightarrow> Some (field r ''coordinates''))"

section \<open>Sample environments and worlds\<close>

text \<open>
  An environment in which no request fails, the service lists in stored order, every
  execution completes and local storage accepts every write.
\<close>

definition quiet_env :: env where
  "quiet_env =
     \<lparr> fails = (\<lambda>tr c. False),
       order_desc = (\<lambda>a ds. ds),
       exec_status = (\<lambda>tr c. JStr ''completed''),
       json_stringify = (\<lambda>v. ''json''),
       json_parse = (\<lambda>s. Some (JArr [])),
       blob_size = length,
       set_item_fails = (\<lambda>k v. False),
       unique = (\<lambda>n. replicate (Suc n) CHR ''u''),
       now = 0,
       date_parse = (\<lambda>v. Some 0),
       iso_string = (\<lambda>t. ''1970-01-01T00:00:00.000Z''),
       date_string = (\<lambda>t. ''Thu Jan 01 1970 00:00:00 GMT+0000''),
       engine_rank = (\<lambda>xs i. i),
       num_str = (\<lambda>r. if r = 12.34 then ''12.34'' else if r = 56.78 then ''56.78'' else ''0''),
       lower_case = (\<lambda>s. s),
       error_message = (\<lambda>e. ''error''),
       email_body = (\<lambda>args. Some ''<p>served</p>'') \<rparr>"

text \<open>Every request fails.\<close>

definition offline_env :: env where
  "offline_env = quiet_env\<lparr>fails := (\<lambda>tr c. True)\<rparr>"

text \<open>Creating a document fails; every other request succeeds.\<close>

definition no_create_env :: env where
  "no_create_env =
     quiet_env\<lparr>fails := (\<lambda>tr c. case c of CreateDocument col i p \<Rightarrow> True | _ \<Rightarrow> False)\<rparr>"

text \<open>Listing the cases fails; every other request succeeds.\<close>

definition no_cases_env :: env where
  "no_cases_env =
     quiet_env\<lparr>fails := (\<lambda>tr c. case c of ListDocuments col qs \<Rightarrow> col = Cases | _ \<Rightarrow> False)\<rparr>"


definition empty_world :: world where
  "empty_world =
     \<lparr> store = (\<lambda>c. []), bucket = [], local_storage = (\<lambda>k. None), trace = [],
       console = [], events = [], drawn = 0 \<rparr>"

definition photo_doc :: "nat \<Rightarrow> jsobj" where
  "photo_doc n =
     [(''$id'', JStr (''serve'' @ replicate n CHR ''i'')),
      (''client_id'', JStr ''c1''),
      (''image_data'', JStr ''photo'')]"

text \<open>Twenty-one serve attempts, each with a photo.\<close>

definition world_21 :: world where
  "world_21 =
     empty_world\<lparr>store := (\<lambda>c. if c = ServeAttempts then map photo_doc [0..<21] else [])\<rparr>"

definition client_c1 :: jsobj where
  "client_c1 = [(''$id'', JStr ''c1''), (''name'', JStr ''Ada''), (''email'', JStr ''ada@example.org'')]"

definition case_doc :: "string \<Rightarrow> jsobj" where
  "case_doc i = [(''$id'', JStr i), (''client_id'', JStr ''c1''), (''case_number'', JStr ''N-1'')]"

definition serve_doc :: "string \<Rightarrow> jsobj" where
  "serve_doc i =
     [(''$id'', JStr i), (''client_id'', JStr ''c1''), (''client_name'', JStr ''Ada''),
      (''case_number'', JStr ''N-1''), (''case_name'', JStr ''Doe v. Roe''),
      (''status'', JStr ''failed''), (''notes'', JStr ''nobody home''),
      (''address'', JStr ''1 Main St''), (''coordinates'', JStr ''40.7,-74.0''),
      (''image_data'', JStr ''photo''), (''timestamp'', JStr ''2024-01-01T00:00:00.000Z''),
      (''attempt_number'', JNum 1)]"

definition file_doc :: jsobj where
  "file_doc = [(''$id'', JStr ''d1''), (''client_id'', JStr ''c1''), (''file_path'', JStr ''f1'')]"

text \<open>
  One client with two cases, three serve attempts and one document with its file: the
  deletion that the specification's test describes starts here.
\<close>

definition sample_world :: world where
  "sample_world =
     empty_world
       \<lparr>store := (\<lambda>c. case c of
                        Clients \<Rightarrow> [client_c1]
                      | Cases \<Rightarrow> [case_doc ''k1'', case_doc ''k2'']
                      | ServeAttempts \<Rightarrow> [serve_doc ''s1'', serve_doc ''s2'', serve_doc ''s3'']
                      | Documents \<Rightarrow> [file_doc]),
        bucket := [JStr ''f1'']\<rparr>"

text \<open>The client is referred to by a document only.\<close>

definition document_only_world :: world where
  "document_only_world =
     empty_world\<lparr>store := (\<lambda>c. case c of Documents \<Rightarrow> [file_doc] | _ \<Rightarrow> [])\<rparr>"

text \<open>
  Inputs of a creation: coordinates as a string, as a pair, and as the empty string.
\<close>

definition serve_input :: "jsval \<Rightarrow> jsobj" where
  "serve_input coordinates =
     [(''clientId'', JStr ''c1''), (''clientName'', JStr ''Ada''),
      (''caseNumber'', JStr ''N-1''), (''coordinates'', coordinates)]"

definition pair_coordinates :: jsval where
  "pair_coordinates = JObj [(''latitude'', JNum 12.34), (''longitude'', JNum 56.78)]"

text \<open>
  Inputs of an update: the stored fields again, and new notes together with fields that
  an update does not write.
\<close>

definition same_input :: jsobj where
  "same_input =
     [(''notes'', JStr ''nobody home''), (''status'', JStr ''failed''),
      (''caseNumber'', JStr ''N-1''), (''caseName'', JStr ''Doe v. Roe'')]"

definition changed_input :: jsobj where
  "changed_input =
     [(''notes'', JStr ''left with neighbour''), (''clientId'', JStr ''c2''),
      (''timestamp'', JStr ''2025-01-01T00:00:00.000Z''), (''coordinates'', JStr ''0,0''),
      (''imageData'', JStr ''other''), (''address'', JStr ''2 Side St''),
      (''attemptNumber'', JNum 7)]"

text \<open>Creating a document fails and local storage accepts no write.\<close>

definition full_env :: env where
  "full_env = no_create_env\<lparr>set_item_fails := (\<lambda>k v. True)\<rparr>"

text \<open>The client is referred to by nothing.\<close>

definition nobody :: jsval where
  "nobody = JStr ''c9''"

text \<open>
  A serialiser that shows what it is given: JSON without the quotation marks, a property
  whose value is \<^verbatim>\<open>undefined\<close> left out, a date in ISO form.
\<close>

fun bare_json :: "env \<Rightarrow> jsval \<Rightarrow> string" where
  "bare_json en JUndefined = ''null''"
| "bare_json en JNull = ''null''"
| "bare_json en (JBool b) = (if b then ''true'' else ''false'')"
| "bare_json en (JNum r) = num_str en r"
| "bare_json en (JStr s) = s"
| "bare_json en (JDate d) = (case d of None \<Rightarrow> ''null'' | Some t \<Rightarrow> iso_string en t)"
| "bare_json en (JArr xs) = ''['' @ join_commas (map (bare_json en) xs) @ '']''"
| "bare_json en (JObj obj) =
     ''{'' @ join_commas (map (\<lambda>(k, v). k @ '':'' @ bare_json en v)
                            (filter (\<lambda>(k, v). v \<noteq> JUndefined) obj)) @ ''}''"

text \<open>Creating a document fails, and the number one prints as \<^verbatim>\<open>1\<close>.\<close>

definition counting_env :: env where
  "counting_env =
     no_create_env\<lparr>num_str := (\<lambda>r. if r = 1 then ''1'' else num_str quiet_env r)\<rparr>"

text \<open>The same, with local storage written by the serialiser above.\<close>

definition printing_env :: env where
  "printing_env = counting_env\<lparr>json_stringify := bare_json counting_env\<rparr>"

section \<open>Basic facts\<close>

lemmas io_defs =
  io_ret_def io_throw_def io_bind_def io_catch_def console_error_def console_warn_def


lemma field_format_serve_image: "field (format_serve en img doc) ''imageData'' = img"
  by (simp add: format_serve_def field_def)

lemma length_select_limit: "q_limit qs = Some n \<Longrightarrow> length (select_docs en qs ds) \<le> n"
  by (simp add: select_docs_def Let_def)

lemma select_by_client:
  "select_docs en (by_client cid) ds = filter (\<lambda>d. field d ''client_id'' = cid) ds"
proof -
  have "q_matches [QEqual ''client_id'' cid] = (\<lambda>d. field d ''client_id'' = cid)"
    by (rule ext) simp
  then show ?thesis by (simp add: select_docs_def by_client_def)
qed

lemma references_select:
  "references w c cid \<longleftrightarrow> select_docs en (by_client cid) (store w c) \<noteq> []"
  by (auto simp: references_def select_by_client filter_empty_conv)

section \<open>Listing serve attempts: which records carry an image\<close>

lemma photo_doc_image: "js_or (field (photo_doc n) ''image_data'') JNull = JStr ''photo''"
  by (simp add: photo_doc_def js_or_def field_def)

text \<open>
  C1, as the code has it. When the listing request succeeds, \<^verbatim>\<open>getServeAttempts\<close>
  returns at most \<open>limit\<close> records, one per document listed and in the same order. With
  \<open>offset = 0\<close> every record, at whatever position, carries the stored image payload
  (null when the stored one is absent or falsy); with any other offset every record's
  image payload is null. No window of twenty is applied by this operation.
\<close>

theorem getServeAttempts_images:
  assumes "\<not> fails en (trace w)
             (ListDocuments ServeAttempts [QOrderDesc ''timestamp'', QLimit limit, QOffset offset])"
  shows "\<exists>rs w'. getServeAttempts en limit offset w = (Inr rs, w') \<and> length rs \<le> limit \<and>
     map (\<lambda>r. field r ''imageData'') rs
       = map (\<lambda>d. if offset = 0 then js_or (field d ''image_data'') JNull else JNull)
           (select_docs en [QOrderDesc ''timestamp'', QLimit limit, QOffset offset]
              (store w ServeAttempts))"
  using assms
  by (simp add: getServeAttempts_def io_defs listDocuments_def request_def
        field_format_serve_image length_select_limit o_def)

theorem getServeAttempts_images_witness:
  "\<exists>rs w'. getServeAttempts quiet_env 50 0 world_21 = (Inr rs, w') \<and> length rs \<le> 50 \<and>
     map (\<lambda>r. field r ''imageData'') rs = replicate 21 (JStr ''photo'')"
proof -
  have sel: "select_docs quiet_env [QOrderDesc ''timestamp'', QLimit 50, QOffset 0]
               (store world_21 ServeAttempts) = map photo_doc [0..<21]"
    by (simp add: select_docs_def quiet_env_def world_21_def empty_world_def)
  have "\<not> fails quiet_env (trace world_21)
            (ListDocuments ServeAttempts [QOrderDesc ''timestamp'', QLimit 50, QOffset 0])"
    by (simp add: quiet_env_def)
  from getServeAttempts_images [OF this] show ?thesis
    unfolding sel by (simp add: photo_doc_image o_def map_replicate_const)
qed

text \<open>
  C1 as stated fails: with twenty-one stored serve attempts that each have a photo, the
  default limit 50 and offset 0, the record at position 20 has a non-null image payload.
\<close>

theorem getServeAttempts_position_20_counterexample:
  "image_at 20 (getServeAttempts quiet_env 50 0 world_21) = Some (JStr ''photo'')"
  by (simp add: image_at_def getServeAttempts_def io_defs listDocuments_def request_def
      quiet_env_def world_21_def empty_world_def select_docs_def field_format_serve_image
      photo_doc_image nth_append)

section \<open>Listing: a failing read\<close>

text \<open>
  C2, as the code has it. When the listing request fails, \<^verbatim>\<open>getServeAttempts\<close>,
  \<^verbatim>\<open>getClientServeAttempts\<close>, \<^verbatim>\<open>getClientCases\<close> and \<^verbatim>\<open>getClientDocuments\<close>
  (with or without a case number) log the failure and return the empty list;
  \<^verbatim>\<open>getClients\<close> logs the failure and throws it to its caller.
\<close>

theorem list_failure_results:
  "(fails en (trace w)
      (ListDocuments ServeAttempts [QOrderDesc ''timestamp'', QLimit limit, QOffset offset]) \<longrightarrow>
      fst (getServeAttempts en limit offset w) = Inr [] \<and>
      console (snd (getServeAttempts en limit offset w))
        = console w @ [(Err, ''Error fetching serve attempts:'')])
   \<and> (fails en (trace w) (ListDocuments ServeAttempts [QEqual ''client_id'' cid]) \<longrightarrow>
      fst (getClientServeAttempts en cid w) = Inr [] \<and>
      console (snd (getClientServeAttempts en cid w))
        = console w @ [(Err, ''Error fetching serve attempts for client'')])
   \<and> (fails en (trace w) (ListDocuments Cases [QEqual ''client_id'' cid]) \<longrightarrow>
      fst (getClientCases en cid w) = Inr [] \<and>
      console (snd (getClientCases en cid w))
        = console w @ [(Err, ''Error fetching cases for client'')])
   \<and> (fails en (trace w)
        (ListDocuments Documents
           ([QEqual ''client_id'' cid]
            @ (if truthy caseNumber then [QEqual ''case_number'' caseNumber] else []))) \<longrightarrow>
      fst (getClientDocuments en cid caseNumber w) = Inr [] \<and>
      console (snd (getClientDocuments en cid caseNumber w))
        = console w @ [(Err, ''Error fetching documents for client'')])
   \<and> (fails en (trace w) (ListDocuments Clients []) \<longrightarrow>
      fst (getClients en w) = Inl (RemoteError (ListDocuments Clients [])) \<and>
      console (snd (getClients en w)) = console w @ [(Err, ''Error fetching clients:'')])"
  by (simp add: getServeAttempts_def getClientServeAttempts_def getClientCases_def
      getClientDocuments_def getClients_def io_defs listDocuments_def request_def)

theorem list_failure_results_witness:
  "fst (getServeAttempts offline_env 50 0 sample_world) = Inr [] \<and>
   console (snd (getServeAttempts offline_env 50 0 sample_world))
     = [(Err, ''Error fetching serve attempts:'')] \<and>
   fst (getClientServeAttempts offline_env (JStr ''c1'') sample_world) = Inr [] \<and>
   fst (getClientCases offline_env (JStr ''c1'') sample_world) = Inr [] \<and>
   fst (getClientDocuments offline_env (JStr ''c1'') JUndefined sample_world) = Inr [] \<and>
   fst (getClientDocuments offline_env (JStr ''c1'') (JStr ''N-1'') sample_world) = Inr [] \<and>
   console (snd (getClientDocuments offline_env (JStr ''c1'') (JStr ''N-1'') sample_world))
     = [(Err, ''Error fetching documents for client'')] \<and>
   fst (getClients offline_env sample_world) = Inl (RemoteError (ListDocuments Clients [])) \<and>
   console (snd (getClients offline_env sample_world)) = [(Err, ''Error fetching clients:'')]"
  using list_failure_results
          [where en = offline_env and w = sample_world and limit = 50 and offset = 0
             and cid = "JStr ''c1''" and caseNumber = JUndefined]
        list_failure_results
          [where en = offline_env and w = sample_world and limit = 50 and offset = 0
             and cid = "JStr ''c1''" and caseNumber = "JStr ''N-1''"]
  by (simp add: offline_env_def sample_world_def empty_world_def)

text \<open>
  C2 as stated fails for \<^verbatim>\<open>getClients\<close>: when the service is unreachable the caller
  gets the error, not an empty list.
\<close>

theorem getClients_propagates_counterexample:
  "fst (getClients offline_env sample_world) = Inl (RemoteError (ListDocuments Clients []))"
  by (simp add: getClients_def io_defs listDocuments_def request_def offline_env_def)

section \<open>The cache sync: an empty window\<close>

text \<open>
  C10. When the listing succeeds and returns no serve attempt, the sync returns false;
  it has made the one listing request and nothing else: local storage is as it was and
  no event has been dispatched.
\<close>

theorem sync_no_records:
  assumes "\<not> fails en (trace w)
             (ListDocuments ServeAttempts [QOrderDesc ''timestamp'', QLimit 100])"
    and "select_docs en [QOrderDesc ''timestamp'', QLimit 100] (store w ServeAttempts) = []"
  shows "syncAppwriteServesToLocal en w
           = (Inr False,
              w\<lparr>trace := trace w
                   @ [ListDocuments ServeAttempts [QOrderDesc ''timestamp'', QLimit 100]]\<rparr>)
         \<and> local_storage (snd (syncAppwriteServesToLocal en w)) = local_storage w
         \<and> events (snd (syncAppwriteServesToLocal en w)) = events w"
  using assms
  by (simp add: syncAppwriteServesToLocal_def io_defs listDocuments_def request_def)

theorem sync_no_records_witness:
  "syncAppwriteServesToLocal quiet_env empty_world
     = (Inr False,
        empty_world\<lparr>trace := [ListDocuments ServeAttempts [QOrderDesc ''timestamp'', QLimit 100]]\<rparr>)
   \<and> local_storage (snd (syncAppwriteServesToLocal quiet_env empty_world))
       = local_storage empty_world
   \<and> events (snd (syncAppwriteServesToLocal quiet_env empty_world)) = []"
  using sync_no_records [of quiet_env empty_world]
  by (simp add: quiet_env_def empty_world_def select_docs_def)

section \<open>The samples, field by field\<close>

lemma quiet_env_simps:
  "fails quiet_env tr c = False"
  "order_desc quiet_env a ds = ds"
  "exec_status quiet_env tr c = JStr ''completed''"
  "json_stringify quiet_env v = ''json''"
  "json_parse quiet_env s = Some (JArr [])"
  "blob_size quiet_env s = length s"
  "set_item_fails quiet_env k s = False"
  "unique quiet_env n = replicate (Suc n) CHR ''u''"
  "now quiet_env = 0"
  "date_parse quiet_env v = Some 0"
  "iso_string quiet_env t = ''1970-01-01T00:00:00.000Z''"
  "lower_case quiet_env s = s"
  "error_message quiet_env e = ''error''"
  "email_body quiet_env args = Some ''<p>served</p>''"
  by (simp_all add: quiet_env_def)

lemma sample_store:
  "store sample_world Clients = [client_c1]"
  "store sample_world Cases = [case_doc ''k1'', case_doc ''k2'']"
  "store sample_world ServeAttempts = [serve_doc ''s1'', serve_doc ''s2'', serve_doc ''s3'']"
  "store sample_world Documents = [file_doc]"
  "bucket sample_world = [JStr ''f1'']"
  "trace sample_world = []"
  "console sample_world = []"
  "events sample_world = []"
  "drawn sample_world = 0"
  "local_storage sample_world = (\<lambda>k. None)"
  by (simp_all add: sample_world_def empty_world_def)


lemma listDocuments_ok:
  "\<not> fails en (trace w) (ListDocuments c qs) \<Longrightarrow>
   listDocuments en c qs w
     = (Inr (select_docs en qs (store w c)), w\<lparr>trace := trace w @ [ListDocuments c qs]\<rparr>)"
  by (simp add: listDocuments_def request_def)

lemma listDocuments_fails:
  "fails en (trace w) (ListDocuments c qs) \<Longrightarrow>
   listDocuments en c qs w
     = (Inl (RemoteError (ListDocuments c qs)), w\<lparr>trace := trace w @ [ListDocuments c qs]\<rparr>)"
  by (simp add: listDocuments_def request_def)

section \<open>The cache sync: a batch over five megabytes\<close>




section \<open>Resolving a client reference\<close>

text \<open>
  C6, as the code has it. \<^verbatim>\<open>resolveClientId\<close> asks for the cases that refer to the
  identifier, then for the documents, then for the serve attempts, and stops at the
  first listing that fails or that has a match. A match returns the identifier it was
  given. When the three listings succeed and none has a match it warns and returns
  null. When a listing fails before a match, it logs the failure and returns null,
  whatever refers to the identifier. \<open>f1\<close>, \<open>f2\<close> and \<open>f3\<close> say whether the first, the
  second and the third listing fail at the moment they are made.
\<close>

theorem resolveClientId_result:
  assumes q: "q = by_client cid"
    and f1: "f1 = fails en (trace w) (ListDocuments Cases q)"
    and f2: "f2 = fails en (trace w @ [ListDocuments Cases q]) (ListDocuments Documents q)"
    and f3: "f3 = fails en (trace w @ [ListDocuments Cases q, ListDocuments Documents q])
                    (ListDocuments ServeAttempts q)"
  shows "fst (resolveClientId en cid w)
           = Inr (if f1 then JNull
                  else if references w Cases cid then cid
                  else if f2 then JNull
                  else if references w Documents cid then cid
                  else if f3 then JNull
                  else if references w ServeAttempts cid then cid
                  else JNull)
       \<and> trace (snd (resolveClientId en cid w))
           = trace w @ ListDocuments Cases q
               # (if f1 \<or> references w Cases cid then []
                  else ListDocuments Documents q
                    # (if f2 \<or> references w Documents cid then []
                       else [ListDocuments ServeAttempts q]))
       \<and> console (snd (resolveClientId en cid w))
           = console w
             @ (if f1 then [(Err, ''Error resolving client ID for fallback client_id'')]
                else if references w Cases cid then []
                else if f2 then [(Err, ''Error resolving client ID for fallback client_id'')]
                else if references w Documents cid then []
                else if f3 then [(Err, ''Error resolving client ID for fallback client_id'')]
                else if references w ServeAttempts cid then []
                else [(Warn, ''Unable to resolve client ID for fallback client_id'')])"
  unfolding f1 f2 f3 q by_client_def
  by (cases "fails en (trace w) (ListDocuments Cases [QEqual ''client_id'' cid])";
      cases "fails en (trace w @ [ListDocuments Cases [QEqual ''client_id'' cid]])
               (ListDocuments Documents [QEqual ''client_id'' cid])";
      cases "fails en (trace w @ [ListDocuments Cases [QEqual ''client_id'' cid],
                                  ListDocuments Documents [QEqual ''client_id'' cid]])
               (ListDocuments ServeAttempts [QEqual ''client_id'' cid])")
     (simp_all add: resolveClientId_def io_defs listDocuments_ok listDocuments_fails
        references_select [of _ _ _ en] by_client_def)

lemma sample_references:
  "references sample_world Cases (JStr ''c1'')"
  "\<not> references document_only_world Cases (JStr ''c1'')"
  "references document_only_world Documents (JStr ''c1'')"
  "\<not> references world_21 Cases (JStr ''c1'')"
  "\<not> references world_21 Documents (JStr ''c1'')"
  "references world_21 ServeAttempts (JStr ''c1'')"
  "\<not> references sample_world Cases nobody"
  "\<not> references sample_world Documents nobody"
  "\<not> references sample_world ServeAttempts nobody"
  by code_simp+

text \<open>
  Each collection alone resolves the identifier, and the trace shows how far the search
  went; an identifier nothing refers to resolves to null with a warning; and when the
  listing of the cases fails, the identifier of a client with cases resolves to null
  after that one request, with the failure logged.
\<close>

theorem resolveClientId_result_witness:
  "fst (resolveClientId quiet_env (JStr ''c1'') sample_world) = Inr (JStr ''c1'')
   \<and> trace (snd (resolveClientId quiet_env (JStr ''c1'') sample_world))
       = [ListDocuments Cases (by_client (JStr ''c1''))]
   \<and> fst (resolveClientId quiet_env (JStr ''c1'') document_only_world) = Inr (JStr ''c1'')
   \<and> trace (snd (resolveClientId quiet_env (JStr ''c1'') document_only_world))
       = [ListDocuments Cases (by_client (JStr ''c1'')),
          ListDocuments Documents (by_client (JStr ''c1''))]
   \<and> fst (resolveClientId quiet_env (JStr ''c1'') world_21) = Inr (JStr ''c1'')
   \<and> trace (snd (resolveClientId quiet_env (JStr ''c1'') world_21))
       = [ListDocuments Cases (by_client (JStr ''c1'')),
          ListDocuments Documents (by_client (JStr ''c1'')),
          ListDocuments ServeAttempts (by_client (JStr ''c1''))]
   \<and> fst (resolveClientId quiet_env nobody sample_world) = Inr JNull
   \<and> console (snd (resolveClientId quiet_env nobody sample_world))
       = [(Warn, ''Unable to resolve client ID for fallback client_id'')]
   \<and> fst (resolveClientId no_cases_env (JStr ''c1'') sample_world) = Inr JNull
   \<and> trace (snd (resolveClientId no_cases_env (JStr ''c1'') sample_world))
       = [ListDocuments Cases (by_client (JStr ''c1''))]
   \<and> console (snd (resolveClientId no_cases_env (JStr ''c1'') sample_world))
       = [(Err, ''Error resolving client ID for fallback client_id'')]"
proof -
  have q: "fails quiet_env tr c = False" for tr c
    by (simp add: quiet_env_simps)
  have n: "fails no_cases_env tr (ListDocuments Cases qs) = True" for tr qs
    by (simp add: no_cases_env_def)
  have fresh: "trace document_only_world = []" "console document_only_world = []"
      "trace world_21 = []" "console world_21 = []"
    by (simp_all add: document_only_world_def world_21_def empty_world_def)
  from resolveClientId_result
         [where en = quiet_env and w = sample_world and cid = "JStr ''c1''", OF refl refl refl refl]
       resolveClientId_result
         [where en = quiet_env and w = document_only_world and cid = "JStr ''c1''", OF refl refl refl refl]
       resolveClientId_result
         [where en = quiet_env and w = world_21 and cid = "JStr ''c1''", OF refl refl refl refl]
       resolveClientId_result
         [where en = quiet_env and w = sample_world and cid = nobody, OF refl refl refl refl]
       resolveClientId_result
         [where en = no_cases_env and w = sample_world and cid = "JStr ''c1''", OF refl refl refl refl]
  show ?thesis
    unfolding q n
    by (simp add: sample_references sample_store fresh)
qed

text \<open>
  C6 as stated fails: the client has cases, documents and serve attempts, the listing
  of the cases fails, and \<^verbatim>\<open>resolveClientId\<close> returns null, not the identifier.
\<close>

theorem resolveClientId_failed_listing_counterexample:
  "references sample_world Cases (JStr ''c1'')
   \<and> references sample_world Documents (JStr ''c1'')
   \<and> references sample_world ServeAttempts (JStr ''c1'')
   \<and> fst (resolveClientId no_cases_env (JStr ''c1'') sample_world) = Inr JNull"
  by code_simp

section \<open>Updating with the stored values\<close>

lemma strict_eq_primitive: "is_primitive a \<Longrightarrow> strict_eq a a"
  by (cases a) simp_all

lemma diff_field_same:
  "field sd k = JUndefined \<or> (is_primitive (field od k') \<and> field sd k = field od k') \<Longrightarrow>
   diff_field sd k od k' u = u"
  by (auto simp: diff_field_def strict_eq_primitive)

lemma update_data_same:
  assumes "\<forall>(k, k') \<in> set diffable.
             field sd k = JUndefined \<or> (is_primitive (field od k') \<and> field sd k = field od k')"
  shows "update_data sd od = []"
  using assms by (simp add: update_data_def diffable_def diff_field_same)

text \<open>
  C4. Let the identifier be usable, let the read of the stored document succeed, and
  let the input agree with it on the fields an update compares (notes, status, case
  number, case name): each is absent from the input or equal to the stored value, a
  primitive. Then the update returns the stored document as it was read, and the read
  is the only request it makes: no write, and the world is otherwise untouched.
\<close>

theorem update_identical_is_noop:
  assumes "doc_id_of serveId w = (Inr docId, w)" and "truthy docId"
    and "\<not> fails en (trace w) (GetDocument ServeAttempts docId)"
    and "find (has_id docId) (store w ServeAttempts) = Some originalDoc"
    and "\<forall>(k, k') \<in> set diffable.
           field serveData k = JUndefined
           \<or> (is_primitive (field originalDoc k') \<and> field serveData k = field originalDoc k')"
  shows "updateServeAttempt en serveId serveData w
           = (Inr originalDoc, w\<lparr>trace := trace w @ [GetDocument ServeAttempts docId]\<rparr>)"
  using assms(1-4)
  by (simp add: updateServeAttempt_def io_defs getDocument_def request_def
      update_data_same [OF assms(5)])

text \<open>
  The input that repeats the four stored fields, and the stored document itself given
  as input.
\<close>

theorem update_identical_is_noop_witness:
  "updateServeAttempt quiet_env (JStr ''s1'') same_input sample_world
     = (Inr (serve_doc ''s1''),
        sample_world\<lparr>trace := [GetDocument ServeAttempts (JStr ''s1'')]\<rparr>)
   \<and> updateServeAttempt quiet_env (JStr ''s1'') (serve_doc ''s1'') sample_world
     = (Inr (serve_doc ''s1''),
        sample_world\<lparr>trace := [GetDocument ServeAttempts (JStr ''s1'')]\<rparr>)"
proof -
  have 1: "doc_id_of (JStr ''s1'') sample_world = (Inr (JStr ''s1''), sample_world)"
    by (simp add: doc_id_of_def io_defs)
  have 2: "truthy (JStr ''s1'')" by simp
  have 3: "\<not> fails quiet_env (trace sample_world) (GetDocument ServeAttempts (JStr ''s1''))"
    by (simp add: quiet_env_simps)
  have 4: "find (has_id (JStr ''s1'')) (store sample_world ServeAttempts)
             = Some (serve_doc ''s1'')"
    by (simp add: sample_store has_id_def serve_doc_def field_def)
  have 5: "\<forall>(k, k') \<in> set diffable.
             field same_input k = JUndefined
             \<or> (is_primitive (field (serve_doc ''s1'') k')
                \<and> field same_input k = field (serve_doc ''s1'') k')"
    by (simp add: diffable_def same_input_def serve_doc_def field_def)
  have 6: "\<forall>(k, k') \<in> set diffable.
             field (serve_doc ''s1'') k = JUndefined
             \<or> (is_primitive (field (serve_doc ''s1'') k')
                \<and> field (serve_doc ''s1'') k = field (serve_doc ''s1'') k')"
    by (simp add: diffable_def serve_doc_def field_def)
  from update_identical_is_noop [OF 1 2 3 4 5] update_identical_is_noop [OF 1 2 3 4 6]
  show ?thesis by (simp add: sample_store)
qed

section \<open>Creating when the remote create fails\<close>

lemma parsed_string:
  "(case js_or (case local_storage w ''serve-tracker-serves'' of
                  None \<Rightarrow> JNull | Some s \<Rightarrow> JStr s) (JStr ''[]'') of
      JStr s \<Rightarrow> s | _ \<Rightarrow> ''[]'') = stored_serves w"
  by (simp add: stored_serves_def js_or_def split: option.splits)

lemma local_fallback_eq:
  "local_fallback en sd w =
     (case json_parse en (stored_serves w) of
        None \<Rightarrow> (Inl SyntaxError, w)
      | Some v \<Rightarrow>
          (case v of
             JArr xs \<Rightarrow>
               (if set_item_fails en ''serve-tracker-serves''
                     (json_stringify en
                        (JArr (xs @ [JObj (local_serve en sd (unique en (drawn w)))])))
                then (Inl QuotaExceeded, w\<lparr>drawn := Suc (drawn w)\<rparr>)
                else (Inr (local_serve en sd (unique en (drawn w))),
                      w\<lparr>drawn := Suc (drawn w),
                        local_storage := (local_storage w)
                          (''serve-tracker-serves'' \<mapsto>
                             json_stringify en
                               (JArr (xs @ [JObj (local_serve en sd (unique en (drawn w)))])))\<rparr>))
           | _ \<Rightarrow> (Inl TypeError, w\<lparr>drawn := Suc (drawn w)\<rparr>)))"
  unfolding local_fallback_def io_bind_def getItem_def
  by (simp add: parsed_string JSON_parse_def ID_unique_def setItem_def io_ret_def io_throw_def
      io_bind_def Let_def split: option.splits jsval.splits)

lemma local_fallback_ok:
  assumes "json_parse en (stored_serves w) = Some (JArr xs)"
    and "\<not> set_item_fails en ''serve-tracker-serves''
            (json_stringify en (JArr (xs @ [JObj (local_serve en sd (unique en (drawn w)))])))"
  shows "local_fallback en sd w
           = (Inr (local_serve en sd (unique en (drawn w))),
              w\<lparr>drawn := Suc (drawn w),
                local_storage := (local_storage w)
                  (''serve-tracker-serves'' \<mapsto>
                     json_stringify en
                       (JArr (xs @ [JObj (local_serve en sd (unique en (drawn w)))])))\<rparr>)"
  using assms by (simp add: local_fallback_eq)

lemma local_fallback_storage:
  "fst (local_fallback en sd w) = Inl e \<Longrightarrow>
   local_storage (snd (local_fallback en sd w)) = local_storage w"
  by (auto simp: local_fallback_eq split: option.splits if_splits jsval.splits)

lemma local_fallback_refused:
  assumes "json_parse en (stored_serves w) = Some (JArr xs)"
    and "set_item_fails en ''serve-tracker-serves''
            (json_stringify en (JArr (xs @ [JObj (local_serve en sd (unique en (drawn w)))])))"
  shows "fst (local_fallback en sd w) = Inl QuotaExceeded"
  using assms by (simp add: local_fallback_eq)

lemma local_fallback_unparsable:
  assumes "\<forall>xs. json_parse en (stored_serves w) \<noteq> Some (JArr xs)"
  shows "\<exists>e. fst (local_fallback en sd w) = Inl e"
  using assms by (auto simp: local_fallback_eq split: option.splits jsval.splits)

lemma catch_after_try:
  "createServeAttempt_try en sd w = (Inl e, w1) \<Longrightarrow>
   createServeAttempt en sd w =
     (case local_fallback en sd
             (w1\<lparr>console := console w1 @ [(Err, ''Error creating serve attempt:'')]\<rparr>) of
        (Inr r, w2) \<Rightarrow> (Inr r, w2)
      | (Inl le, w2) \<Rightarrow>
          (Inl e, w2\<lparr>console := console w2 @ [(Err, ''Failed local storage fallback:'')]\<rparr>))"
  by (simp add: createServeAttempt_def createServeAttempt_catch_def io_defs
      split: prod.splits sum.splits)

text \<open>
  C9. Let the body of \<^verbatim>\<open>createServeAttempt\<close> end with the failure of the remote
  create, in the world \<open>w1\<close>, and let \<open>newServe\<close> be the record of thirteen fields
  that holds the next identifier, the input's client reference and client e-mail as
  they are, each other field of the input or its default where the input's is falsy,
  and the current time. If the stored serve list parses to an array and
  local storage accepts the write, the creation returns \<open>newServe\<close> and the key holds
  the list with \<open>newServe\<close> appended. If the stored list does not parse to an array, or
  local storage refuses the write, the creation throws the error of the remote create
  and local storage is as it was.
\<close>

theorem create_falls_back_to_local_storage:
  assumes body: "createServeAttempt_try en sd w
                   = (Inl (RemoteError (CreateDocument ServeAttempts i p)), w1)"
    and fields: "newServe =
       [(''id'', JStr (unique en (drawn w1))),
        (''clientId'', field sd ''clientId''),
        (''clientName'', if truthy (field sd ''clientName'') then field sd ''clientName''
                         else JStr ''Unknown Client''),
        (''clientEmail'', field sd ''clientEmail''),
        (''caseNumber'', if truthy (field sd ''caseNumber'') then field sd ''caseNumber''
                         else JStr ''Unknown''),
        (''caseName'', if truthy (field sd ''caseName'') then field sd ''caseName''
                       else JStr ''Unknown Case''),
        (''coordinates'', if truthy (field sd ''coordinates'') then field sd ''coordinates''
                          else JNull),
        (''notes'', if truthy (field sd ''notes'') then field sd ''notes'' else JStr []),
        (''status'', if truthy (field sd ''status'') then field sd ''status''
                     else JStr ''unknown''),
        (''timestamp'', JDate (Some (now en))),
        (''attemptNumber'', if truthy (field sd ''attemptNumber'')
                            then field sd ''attemptNumber'' else JNum 1),
        (''imageData'', if truthy (field sd ''imageData'') then field sd ''imageData''
                        else JNull),
        (''address'', if truthy (field sd ''address'') then field sd ''address''
                      else JStr [])]"
  shows "(\<forall>xs. json_parse en (stored_serves w1) = Some (JArr xs)
             \<and> \<not> set_item_fails en ''serve-tracker-serves''
                   (json_stringify en (JArr (xs @ [JObj newServe])))
           \<longrightarrow> fst (createServeAttempt en sd w) = Inr newServe
             \<and> local_storage (snd (createServeAttempt en sd w))
                 = (local_storage w1)
                     (''serve-tracker-serves'' \<mapsto>
                        json_stringify en (JArr (xs @ [JObj newServe]))))
       \<and> ((\<forall>xs. json_parse en (stored_serves w1) = Some (JArr xs)
             \<longrightarrow> set_item_fails en ''serve-tracker-serves''
                   (json_stringify en (JArr (xs @ [JObj newServe]))))
           \<longrightarrow> fst (createServeAttempt en sd w)
                 = Inl (RemoteError (CreateDocument ServeAttempts i p))
             \<and> local_storage (snd (createServeAttempt en sd w)) = local_storage w1)"
proof -
  let ?w = "w1\<lparr>console := console w1 @ [(Err, ''Error creating serve attempt:'')]\<rparr>"
  let ?key = "''serve-tracker-serves''"
  have new: "newServe = local_serve en sd (unique en (drawn w1))"
    by (simp add: fields local_serve_def js_or_def)
  have st: "stored_serves ?w = stored_serves w1" "drawn ?w = drawn w1"
      "local_storage ?w = local_storage w1"
    by (simp_all add: stored_serves_def)
  have A: "fst (createServeAttempt en sd w) = Inr newServe
             \<and> local_storage (snd (createServeAttempt en sd w))
                 = (local_storage w1)(?key \<mapsto> json_stringify en (JArr (xs @ [JObj newServe])))"
    if "json_parse en (stored_serves w1) = Some (JArr xs)"
      and "\<not> set_item_fails en ?key (json_stringify en (JArr (xs @ [JObj newServe])))" for xs
    using local_fallback_ok [of en ?w xs sd] that
    by (simp add: catch_after_try [OF body] st new)
  have B: "fst (createServeAttempt en sd w)
             = Inl (RemoteError (CreateDocument ServeAttempts i p))
           \<and> local_storage (snd (createServeAttempt en sd w)) = local_storage w1"
    if h: "\<forall>xs. json_parse en (stored_serves w1) = Some (JArr xs)
             \<longrightarrow> set_item_fails en ?key (json_stringify en (JArr (xs @ [JObj newServe])))"
  proof -
    have "\<exists>e. fst (local_fallback en sd ?w) = Inl e"
    proof (cases "\<exists>xs. json_parse en (stored_serves w1) = Some (JArr xs)")
      case True
      then obtain xs where xs: "json_parse en (stored_serves w1) = Some (JArr xs)" by blast
      with h have "set_item_fails en ?key (json_stringify en (JArr (xs @ [JObj newServe])))"
        by blast
      with local_fallback_refused [of en ?w xs sd] xs show ?thesis by (simp add: st new)
    next
      case False
      with local_fallback_unparsable [of en ?w sd] show ?thesis by (simp add: st)
    qed
    then obtain e where e: "fst (local_fallback en sd ?w) = Inl e" by blast
    from local_fallback_storage [OF e] e show ?thesis
      by (cases "local_fallback en sd ?w") (simp add: catch_after_try [OF body] st)
  qed
  from A B show ?thesis by blast
qed

lemma try_fails_sample:
  assumes "fails e = fails no_create_env" "unique e = unique quiet_env" "now e = 0"
    "iso_string e = iso_string quiet_env"
  shows
  "createServeAttempt_try e (serve_input (JStr ''40.7,-74.0'')) sample_world
     = (Inl (RemoteError (CreateDocument ServeAttempts (JStr ''u'')
               (serve_payload e (serve_input (JStr ''40.7,-74.0'')) (JStr ''Ada'')
                  ''1970-01-01T00:00:00.000Z''))),
        sample_world\<lparr>drawn := 1,
          trace := [CreateDocument ServeAttempts (JStr ''u'')
                      (serve_payload e (serve_input (JStr ''40.7,-74.0'')) (JStr ''Ada'')
                         ''1970-01-01T00:00:00.000Z'')]\<rparr>)"
proof -
  have f: "field (serve_input c) ''clientId'' = JStr ''c1''"
      "field (serve_input c) ''clientName'' = JStr ''Ada''"
      "field (serve_input c) ''timestamp'' = JUndefined" for c
    by (simp_all add: serve_input_def field_def)
  have n: "resolve_client_name e (serve_input c) = io_ret (JStr ''Ada'')" for c
    by (simp add: resolve_client_name_def f js_or_def)
  have t: "timestamp_iso e JUndefined = io_ret ''1970-01-01T00:00:00.000Z''"
    by (simp add: timestamp_iso_def toISOString_def assms quiet_env_def)
  show ?thesis
    by (simp add: createServeAttempt_try_def f n t io_defs ID_unique_def createDocument_def
        request_def assms no_create_env_def quiet_env_def sample_world_def empty_world_def)
qed

text \<open>
  The remote create fails. Where local storage accepts the write, the caller gets the
  local record and the key is written; where it refuses, the caller gets the error of
  the remote create and the key stays absent.
\<close>

theorem create_falls_back_to_local_storage_witness:
  "fst (createServeAttempt no_create_env (serve_input (JStr ''40.7,-74.0'')) sample_world)
     = Inr [(''id'', JStr ''uu''), (''clientId'', JStr ''c1''), (''clientName'', JStr ''Ada''),
            (''clientEmail'', JUndefined), (''caseNumber'', JStr ''N-1''),
            (''caseName'', JStr ''Unknown Case''), (''coordinates'', JStr ''40.7,-74.0''),
            (''notes'', JStr []), (''status'', JStr ''unknown''),
            (''timestamp'', JDate (Some 0)), (''attemptNumber'', JNum 1),
            (''imageData'', JNull), (''address'', JStr [])]
   \<and> local_storage
       (snd (createServeAttempt no_create_env (serve_input (JStr ''40.7,-74.0'')) sample_world))
       ''serve-tracker-serves'' = Some ''json''
   \<and> fst (createServeAttempt full_env (serve_input (JStr ''40.7,-74.0'')) sample_world)
     = Inl (RemoteError (CreateDocument ServeAttempts (JStr ''u'')
               (serve_payload full_env (serve_input (JStr ''40.7,-74.0'')) (JStr ''Ada'')
                  ''1970-01-01T00:00:00.000Z'')))
   \<and> local_storage
       (snd (createServeAttempt full_env (serve_input (JStr ''40.7,-74.0'')) sample_world))
       ''serve-tracker-serves'' = None"
proof -
  let ?sd = "serve_input (JStr ''40.7,-74.0'')"
  have a: "createServeAttempt_try no_create_env ?sd sample_world
     = (Inl (RemoteError (CreateDocument ServeAttempts (JStr ''u'')
               (serve_payload no_create_env ?sd (JStr ''Ada'') ''1970-01-01T00:00:00.000Z''))),
        sample_world\<lparr>drawn := 1,
          trace := [CreateDocument ServeAttempts (JStr ''u'')
                      (serve_payload no_create_env ?sd (JStr ''Ada'')
                         ''1970-01-01T00:00:00.000Z'')]\<rparr>)"
    by (rule try_fails_sample) (simp_all add: no_create_env_def quiet_env_def)
  have b: "createServeAttempt_try full_env ?sd sample_world
     = (Inl (RemoteError (CreateDocument ServeAttempts (JStr ''u'')
               (serve_payload full_env ?sd (JStr ''Ada'') ''1970-01-01T00:00:00.000Z''))),
        sample_world\<lparr>drawn := 1,
          trace := [CreateDocument ServeAttempts (JStr ''u'')
                      (serve_payload full_env ?sd (JStr ''Ada'')
                         ''1970-01-01T00:00:00.000Z'')]\<rparr>)"
    by (rule try_fails_sample) (simp_all add: full_env_def no_create_env_def quiet_env_def)
  from create_falls_back_to_local_storage [OF a refl]
       create_falls_back_to_local_storage [OF b refl]
  show ?thesis
    by (simp add: stored_serves_def sample_world_def empty_world_def no_create_env_def
        quiet_env_simps full_env_def serve_input_def field_def)
qed

section \<open>What an operation appends and what it leaves alone\<close>

lemma growsI:
  assumes "\<And>w. \<exists>xs. part (snd (m w)) = part w @ xs \<and> list_all P xs"
  shows "grows part P m"
  using assms by (simp add: grows_def)

lemma growsD: "grows part P m \<Longrightarrow> \<exists>xs. part (snd (m w)) = part w @ xs \<and> list_all P xs"
  by (simp add: grows_def)

lemma grows_keeps: "keeps part m \<Longrightarrow> grows part P m"
  by (simp add: grows_def keeps_def)

lemma grows_ret: "grows part P (io_ret x)"
  by (simp add: grows_def io_ret_def)

lemma grows_throw: "grows part P (io_throw e)"
  by (simp add: grows_def io_throw_def)

text \<open>
  Sequencing, with what is known of the first result (\<open>Q\<close>) available to the rest.
\<close>

lemma grows_bind_post:
  assumes m: "grows part P m"
    and post: "\<And>w x w'. m w = (Inr x, w') \<Longrightarrow> Q x"
    and f: "\<And>x. Q x \<Longrightarrow> grows part P (f x)"
  shows "grows part P (io_bind m f)"
proof (rule growsI)
  fix w
  obtain r w1 where mw: "m w = (r, w1)" by (cases "m w")
  from growsD [OF m, of w] mw obtain xs1
    where xs1: "part w1 = part w @ xs1" "list_all P xs1"
    by auto
  show "\<exists>xs. part (snd (io_bind m f w)) = part w @ xs \<and> list_all P xs"
  proof (cases r)
    case (Inl e)
    with mw xs1 show ?thesis by (simp add: io_bind_def)
  next
    case (Inr x)
    with mw post have "Q x" by blast
    from growsD [OF f [OF this], of w1] obtain xs2
      where "part (snd (f x w1)) = part w1 @ xs2" "list_all P xs2" by blast
    with Inr mw xs1 show ?thesis by (simp add: io_bind_def)
  qed
qed

lemma grows_bind:
  assumes "grows part P m" and "\<And>x. grows part P (f x)"
  shows "grows part P (io_bind m f)"
  by (rule grows_bind_post [where Q = "\<lambda>x. True"]) (simp_all add: assms)

lemma grows_catch:
  assumes m: "grows part P m" and h: "\<And>e. grows part P (h e)"
  shows "grows part P (io_catch m h)"
proof (rule growsI)
  fix w
  obtain r w1 where mw: "m w = (r, w1)" by (cases "m w")
  from growsD [OF m, of w] mw obtain xs1
    where xs1: "part w1 = part w @ xs1" "list_all P xs1"
    by auto
  show "\<exists>xs. part (snd (io_catch m h w)) = part w @ xs \<and> list_all P xs"
  proof (cases r)
    case (Inr x)
    with mw xs1 show ?thesis by (simp add: io_catch_def)
  next
    case (Inl e)
    from growsD [OF h, of e w1] obtain xs2
      where "part (snd (h e w1)) = part w1 @ xs2" "list_all P xs2" by blast
    with Inl mw xs1 show ?thesis by (simp add: io_catch_def)
  qed
qed

lemma grows_if:
  assumes "c \<Longrightarrow> grows part P a" and "\<not> c \<Longrightarrow> grows part P b"
  shows "grows part P (if c then a else b)"
  using assms by simp

lemma grows_for_each:
  assumes "\<And>x. x \<in> set xs \<Longrightarrow> grows part P (body x)"
  shows "grows part P (for_each body xs)"
  using assms by (induction xs) (simp_all add: grows_ret grows_bind)

text \<open>The console, local storage, identifiers, dates: no request, no stored document.\<close>

lemma keeps_local:
  "keeps trace (console_error msg)" "keeps serves_of (console_error msg)"
  "keeps trace (console_warn msg)" "keeps serves_of (console_warn msg)"
  "keeps trace (getItem k)" "keeps serves_of (getItem k)"
  "keeps trace (setItem en k v)" "keeps serves_of (setItem en k v)"
  "keeps trace (dispatchEvent name)" "keeps serves_of (dispatchEvent name)"
  "keeps trace (ID_unique en)" "keeps serves_of (ID_unique en)"
  "keeps trace (JSON_parse en s)" "keeps serves_of (JSON_parse en s)"
  "keeps trace (toISOString en d)" "keeps serves_of (toISOString en d)"
  "keeps trace (createServeEmailBody en args)" "keeps serves_of (createServeEmailBody en args)"
  by (simp_all add: keeps_def serves_of_def getItem_def setItem_def dispatchEvent_def
      ID_unique_def JSON_parse_def toISOString_def createServeEmailBody_def io_defs
      split: option.splits jsval.splits)

lemmas grows_local = keeps_local [THEN grows_keeps]

text \<open>A request appends itself to the trace.\<close>

lemma grows_request:
  assumes "P c" and "\<And>w. trace (snd (work w)) = trace w"
  shows "grows trace P (request en c work)"
proof (rule growsI)
  fix w
  have "trace (snd (request en c work w)) = trace w @ [c]"
    by (simp add: request_def Let_def assms(2))
  with assms(1) show "\<exists>cs. trace (snd (request en c work w)) = trace w @ cs \<and> list_all P cs"
    by simp
qed

lemma emits_listDocuments:
  "P (ListDocuments c qs) \<Longrightarrow> grows trace P (listDocuments en c qs)"
  unfolding listDocuments_def by (rule grows_request) simp_all

lemma emits_getDocument: "P (GetDocument c i) \<Longrightarrow> grows trace P (getDocument en c i)"
  unfolding getDocument_def by (rule grows_request) (simp_all split: option.splits)

lemma emits_createDocument:
  "P (CreateDocument c i p) \<Longrightarrow> grows trace P (createDocument en c i p)"
  unfolding createDocument_def
  by (rule grows_request) (simp_all add: Let_def split: option.splits)

lemma emits_updateDocument:
  "P (UpdateDocument c i p) \<Longrightarrow> grows trace P (updateDocument en c i p)"
  unfolding updateDocument_def
  by (rule grows_request) (simp_all add: Let_def split: option.splits)

lemma emits_deleteDocument:
  "P (DeleteDocument c i) \<Longrightarrow> grows trace P (deleteDocument en c i)"
  unfolding deleteDocument_def by (rule grows_request) (simp_all split: option.splits)

lemma emits_deleteFile: "P (DeleteFile f) \<Longrightarrow> grows trace P (deleteFile en f)"
  unfolding deleteFile_def by (rule grows_request) simp_all

lemma emits_createExecution:
  "P (CreateExecution fn body) \<Longrightarrow> grows trace P (createExecution en fn body)"
  unfolding createExecution_def by (rule grows_request) simp_all

text \<open>Reading and executing leave the stored serve attempts alone.\<close>

lemma keeps_request:
  assumes "\<And>w. store (snd (work w)) ServeAttempts = store w ServeAttempts"
  shows "keeps serves_of (request en c work)"
  by (simp add: keeps_def serves_of_def request_def Let_def assms)

lemma stores_reads:
  "grows serves_of P (listDocuments en c qs)"
  "grows serves_of P (getDocument en c i)"
  "grows serves_of P (createExecution en fn body)"
  unfolding listDocuments_def getDocument_def createExecution_def
  by (rule grows_keeps, rule keeps_request, simp split: option.splits)+

lemma grows_some_business: "grows part P (some_business en rs)"
  by (induction en rs rule: some_business.induct) (simp_all add: grows_ret grows_throw)

lemma grows_sendEmail:
  assumes "\<And>fn body. grows part P (createExecution en fn body)"
    and "\<And>msg. grows part P (console_error msg)"
  shows "grows part P (sendEmailViaFunction en emailData)"
  unfolding sendEmailViaFunction_def Let_def
  by (intro grows_catch grows_bind grows_if grows_some_business grows_ret assms)

lemma emits_sync:
  assumes "\<And>c qs. P (ListDocuments c qs)"
  shows "grows trace P (syncAppwriteServesToLocal en)"
  unfolding syncAppwriteServesToLocal_def Let_def
  by (intro grows_catch grows_bind grows_if emits_listDocuments grows_ret grows_local assms)

section \<open>Updating: the write payload\<close>

lemma emits_notify_updated:
  assumes "\<And>fn body. P (CreateExecution fn body)" and "\<And>c i. P (GetDocument c i)"
  shows "grows trace P (notify_updated en response)"
  unfolding notify_updated_def Let_def
  by (intro grows_catch grows_bind grows_if emits_getDocument grows_sendEmail
      emits_createExecution grows_ret grows_local assms)

lemma grows_doc_id_of: "grows part P (doc_id_of serveId)"
  unfolding doc_id_of_def by (intro grows_if grows_ret grows_throw)

lemma set_field_keys: "fst ` set (set_field k v obj) = insert k (fst ` set obj)"
proof (induction obj)
  case Nil
  show ?case by simp
next
  case (Cons x obj)
  obtain k' v' where x: "x = (k', v')" by (cases x)
  show ?case
  proof (cases "k' = k")
    case True
    with x show ?thesis by simp
  next
    case False
    with x Cons.IH show ?thesis by (simp add: insert_commute)
  qed
qed

lemma diff_field_keys:
  "fst ` set (diff_field sd k od k' u) \<subseteq> insert k' (fst ` set u)"
  by (simp add: diff_field_def set_field_keys subset_insertI)

lemma update_data_keys:
  "fst ` set (update_data sd od) \<subseteq> {''notes'', ''status'', ''case_number'', ''case_name''}"
proof -
  let ?a = "diff_field sd ''notes'' od ''notes'' []"
  let ?b = "diff_field sd ''status'' od ''status'' ?a"
  let ?c = "diff_field sd ''caseNumber'' od ''case_number'' ?b"
  have a: "fst ` set ?a \<subseteq> {''notes''}"
    using diff_field_keys [of sd "''notes''" od "''notes''" "[]"] by simp
  have b: "fst ` set ?b \<subseteq> {''notes'', ''status''}"
    using diff_field_keys [of sd "''status''" od "''status''" ?a] a by blast
  have c: "fst ` set ?c \<subseteq> {''notes'', ''status'', ''case_number''}"
    using diff_field_keys [of sd "''caseNumber''" od "''case_number''" ?b] b by blast
  show ?thesis
    unfolding update_data_def
    using diff_field_keys [of sd "''caseName''" od "''case_name''" ?c] c by blast
qed

lemma emits_updateServeAttempt:
  "grows trace update_only (updateServeAttempt en serveId serveData)"
  unfolding updateServeAttempt_def Let_def
  by (intro grows_catch grows_bind grows_if grows_doc_id_of emits_getDocument
      emits_updateDocument emits_notify_updated emits_sync grows_ret grows_throw grows_local)
     (simp_all add: update_data_keys)

text \<open>
  C5. Whatever the identifier, the input, the environment and the world, the requests
  an update makes are reads, executions of the notification function, and writes to a
  serve attempt whose payload has no field other than notes, status, case number and
  case name: client reference, timestamp, coordinates, image, address and attempt
  number are never written, and no document is created or deleted.
\<close>

theorem update_writes_mutable_fields_only:
  assumes "updateServeAttempt en serveId serveData w = (r, w')"
  shows "\<exists>cs. trace w' = trace w @ cs \<and> list_all update_only cs"
  using growsD [OF emits_updateServeAttempt, of en serveId serveData w] assms by simp

lemma changed_input_requests:
  "trace (snd (updateServeAttempt quiet_env (JStr ''s1'') changed_input sample_world))
     = [GetDocument ServeAttempts (JStr ''s1''),
        UpdateDocument ServeAttempts (JStr ''s1'') [(''notes'', JStr ''left with neighbour'')],
        GetDocument Clients (JStr ''c1''),
        CreateExecution ''67ed8899003a8b119a18'' ''json'',
        ListDocuments ServeAttempts [QOrderDesc ''timestamp'', QLimit 100]]"
  by code_simp

text \<open>
  An input with new notes and with a client reference, a timestamp, coordinates, an
  image, an address and an attempt number: the one write carries the notes only.
\<close>

theorem update_writes_mutable_fields_only_witness:
  "trace (snd (updateServeAttempt quiet_env (JStr ''s1'') changed_input sample_world))
     = [GetDocument ServeAttempts (JStr ''s1''),
        UpdateDocument ServeAttempts (JStr ''s1'') [(''notes'', JStr ''left with neighbour'')],
        GetDocument Clients (JStr ''c1''),
        CreateExecution ''67ed8899003a8b119a18'' ''json'',
        ListDocuments ServeAttempts [QOrderDesc ''timestamp'', QLimit 100]]
   \<and> list_all update_only
       (trace (snd (updateServeAttempt quiet_env (JStr ''s1'') changed_input sample_world)))"
  using update_writes_mutable_fields_only
          [of quiet_env "JStr ''s1''" changed_input sample_world
              "fst (updateServeAttempt quiet_env (JStr ''s1'') changed_input sample_world)"
              "snd (updateServeAttempt quiet_env (JStr ''s1'') changed_input sample_world)"]
        changed_input_requests
  by (simp add: sample_store)

section \<open>Creating: the coordinates persisted\<close>

lemma grows_notify_created:
  assumes "\<And>fn body. grows part P (createExecution en fn body)"
    and "\<And>msg. grows part P (console_error msg)"
    and "\<And>args. grows part P (createServeEmailBody en args)"
  shows "grows part P (notify_created en sd response)"
  unfolding notify_created_def Let_def
  by (intro grows_catch grows_bind grows_if grows_sendEmail grows_ret assms)

lemma field_set_field_other: "k' \<noteq> k \<Longrightarrow> field (set_field k v obj) k' = field obj k'"
  by (induction obj) (auto simp: field_def)

lemma resolve_client_name_run:
  "\<exists>name. fst (resolve_client_name en sd w) = Inr name"
  "store (snd (resolve_client_name en sd w)) = store w"
  "drawn (snd (resolve_client_name en sd w)) = drawn w"
  "local_storage (snd (resolve_client_name en sd w)) = local_storage w"
  by (simp_all add: resolve_client_name_def Let_def io_defs getDocument_def request_def
      split: option.splits)

lemma timestamp_iso_world:
  "timestamp_iso en v w' = (fst (timestamp_iso en v w), w')"
  by (simp add: timestamp_iso_def toISOString_def io_ret_def io_throw_def
      split: jsval.splits option.splits)

lemma notify_created_returns: "fst (notify_created en sd r w) = Inr ()"
  unfolding notify_created_def io_catch_def console_error_def
  by (simp split: prod.splits sum.splits)

lemma grows_nothing:
  assumes "grows part (\<lambda>_. False) m"
  shows "part (snd (m w)) = part w"
proof -
  from growsD [OF assms, of w] obtain xs
    where xs: "part (snd (m w)) = part w @ xs" "list_all (\<lambda>_. False) xs" by blast
  from xs(2) have "xs = []" by (cases xs) simp_all
  with xs(1) show ?thesis by simp
qed

lemma notify_created_serves: "serves_of (snd (notify_created en sd r w)) = serves_of w"
  by (rule grows_nothing) (intro grows_notify_created stores_reads grows_local)

lemma notify_created_local:
  "local_storage (snd (notify_created en sd r w)) = local_storage w"
proof -
  have "grows (\<lambda>w. [local_storage w]) (\<lambda>_. False) (notify_created en sd r)"
    by (intro grows_notify_created grows_keeps)
       (simp_all add: keeps_def createExecution_def request_def console_error_def
          createServeEmailBody_def io_ret_def io_throw_def Let_def split: option.splits)
  from grows_nothing [OF this, of w] show ?thesis by simp
qed

text \<open>The body of the \<^verbatim>\<open>try\<close> when the service accepts the create.\<close>

lemma create_remote_ok:
  assumes valid: "truthy (field sd ''clientId'')"
      "\<not> strict_eq (field sd ''clientId'') (JStr ''unknown'')"
    and run: "resolve_client_name en sd w = (Inr name, w1)"
    and ts: "fst (timestamp_iso en (field sd ''timestamp'') w) = Inr ts"
    and ok: "\<not> fails en (trace w1)
               (CreateDocument ServeAttempts (JStr (unique en (drawn w)))
                  (serve_payload en sd name ts))"
    and fresh: "find (has_id (JStr (unique en (drawn w)))) (serves_of w) = None"
    and d: "d = (''$id'', JStr (unique en (drawn w))) # serve_payload en sd name ts"
  shows "fst (createServeAttempt en sd w)
           = Inr (if truthy (field sd ''clientEmail'')
                  then set_field ''clientEmail'' (field sd ''clientEmail'') d else d)"
    and "serves_of (snd (createServeAttempt en sd w)) = serves_of w @ [d]"
    and "local_storage (snd (createServeAttempt en sd w)) = local_storage w"
proof -
  from resolve_client_name_run(2-4) [of en sd w] run
  have k: "store w1 = store w" "drawn w1 = drawn w" "local_storage w1 = local_storage w"
    by simp_all
  define response where
    "response = (if truthy (field sd ''clientEmail'')
                 then set_field ''clientEmail'' (field sd ''clientEmail'') d else d)"
  define w2 where "w2 = w1\<lparr>drawn := Suc (drawn w)\<rparr>"
  define w3 where
    "w3 = w2\<lparr>trace := trace w2 @ [CreateDocument ServeAttempts (JStr (unique en (drawn w)))
                                      (serve_payload en sd name ts)],
              store := (store w2)(ServeAttempts := store w2 ServeAttempts @ [d])\<rparr>"
  have cd: "createDocument en ServeAttempts (JStr (unique en (drawn w)))
              (serve_payload en sd name ts) w2 = (Inr d, w3)"
    using ok fresh
    by (simp add: createDocument_def request_def k serves_of_def Let_def w2_def w3_def d)
  obtain w4 where n: "notify_created en sd response w3 = (Inr (), w4)"
    using notify_created_returns [of en sd response w3]
    by (cases "notify_created en sd response w3") simp
  from notify_created_serves [of en sd response w3] n
  have s4: "serves_of w4 = serves_of w @ [d]"
    by (simp add: serves_of_def k w3_def w2_def)
  from notify_created_local [of en sd response w3] n
  have l4: "local_storage w4 = local_storage w"
    by (simp add: k w3_def w2_def)
  have id: "ID_unique en w1 = (Inr (unique en (drawn w)), w2)"
    by (simp add: ID_unique_def k w2_def)
  have t: "timestamp_iso en (field sd ''timestamp'') w2 = (Inr ts, w2)"
    using timestamp_iso_world [of en "field sd ''timestamp''" w2 w] ts by simp
  have body: "createServeAttempt_try en sd w = (Inr response, w4)"
    using valid
    by (simp add: createServeAttempt_try_def io_bind_def run id t io_ret_def cd
        response_def [symmetric] n)
  then have all: "createServeAttempt en sd w = (Inr response, w4)"
    by (simp add: createServeAttempt_def io_catch_def)
  from all show "fst (createServeAttempt en sd w)
           = Inr (if truthy (field sd ''clientEmail'')
                  then set_field ''clientEmail'' (field sd ''clientEmail'') d else d)"
    by (simp add: response_def)
  from all s4 show "serves_of (snd (createServeAttempt en sd w)) = serves_of w @ [d]"
    by simp
  from all l4 show "local_storage (snd (createServeAttempt en sd w)) = local_storage w"
    by simp
qed

text \<open>
  The body of the \<^verbatim>\<open>try\<close> otherwise: it throws, with the stored documents and local
  storage as they were, and an identifier drawn unless the client reference is refused.
\<close>

lemma create_remote_refused:
  assumes run: "resolve_client_name en sd w = (Inr name, w1)"
    and no: "\<not> (truthy (field sd ''clientId'')
               \<and> \<not> strict_eq (field sd ''clientId'') (JStr ''unknown'')
               \<and> find (has_id (JStr (unique en (drawn w)))) (serves_of w) = None
               \<and> (\<exists>ts. fst (timestamp_iso en (field sd ''timestamp'') w) = Inr ts
                     \<and> \<not> fails en (trace w1)
                          (CreateDocument ServeAttempts (JStr (unique en (drawn w)))
                             (serve_payload en sd name ts))))"
  shows "\<exists>e w'. createServeAttempt_try en sd w = (Inl e, w')
           \<and> store w' = store w \<and> local_storage w' = local_storage w
           \<and> drawn w' = (if truthy (field sd ''clientId'')
                              \<and> \<not> strict_eq (field sd ''clientId'') (JStr ''unknown'')
                          then Suc (drawn w) else drawn w)"
proof (cases "truthy (field sd ''clientId'')
               \<and> \<not> strict_eq (field sd ''clientId'') (JStr ''unknown'')")
  case False
  then show ?thesis
    by (auto simp: createServeAttempt_try_def io_throw_def)
next
  case True
  from resolve_client_name_run(2-4) [of en sd w] run
  have k: "store w1 = store w" "drawn w1 = drawn w" "local_storage w1 = local_storage w"
    by simp_all
  define w2 where "w2 = w1\<lparr>drawn := Suc (drawn w)\<rparr>"
  have id: "ID_unique en w1 = (Inr (unique en (drawn w)), w2)"
    by (simp add: ID_unique_def k w2_def)
  have t: "timestamp_iso en (field sd ''timestamp'') w2
             = (fst (timestamp_iso en (field sd ''timestamp'') w), w2)"
    by (rule timestamp_iso_world)
  show ?thesis
  proof (cases "fst (timestamp_iso en (field sd ''timestamp'') w)")
    case (Inl e)
    with True have "createServeAttempt_try en sd w = (Inl e, w2)"
      by (simp add: createServeAttempt_try_def io_bind_def run id t)
    with True show ?thesis by (simp add: w2_def k)
  next
    case (Inr ts)
    let ?c = "CreateDocument ServeAttempts (JStr (unique en (drawn w)))
                (serve_payload en sd name ts)"
    from no True Inr
    have refused: "fails en (trace w1) ?c
                     \<or> find (has_id (JStr (unique en (drawn w)))) (serves_of w) \<noteq> None"
      by auto
    then have cd: "createDocument en ServeAttempts (JStr (unique en (drawn w)))
              (serve_payload en sd name ts) w2
              = (Inl (RemoteError ?c), w2\<lparr>trace := trace w2 @ [?c]\<rparr>)"
      by (auto simp: createDocument_def request_def k serves_of_def Let_def w2_def)
    with True Inr have "createServeAttempt_try en sd w
                          = (Inl (RemoteError ?c), w2\<lparr>trace := trace w2 @ [?c]\<rparr>)"
      by (simp add: createServeAttempt_try_def io_bind_def run id t)
    with True show ?thesis by (simp add: w2_def k)
  qed
qed


lemma stored_coordinates_field:
  "field ((''$id'', i) # serve_payload en sd name ts) ''coordinates''
     = normalize_coordinates en (field sd ''coordinates'')"
  "field ((''$id'', i) # serve_payload en sd name ts) ''$id'' = i"
  by (simp_all add: serve_payload_def field_def)

lemma local_serve_coordinates:
  "field (local_serve en sd i) ''coordinates''
     = (if truthy (field sd ''coordinates'') then field sd ''coordinates'' else JNull)"
  by (simp add: local_serve_def field_def js_or_def)

text \<open>
  C8, as the code has it. Let \<open>c\<close> be the coordinates of the input, \<open>i\<close> the identifier
  drawn for the document, and \<open>name\<close> and \<open>w1\<close> the client name and the world that
  resolving the name gives (it never throws). The service accepts the creation when the
  client reference is valid, no stored serve attempt has the identifier \<open>i\<close>, the
  timestamp converts, and the create request does not fail at the moment it is made.

  When the service accepts, the creation returns the document it stored, and the stored
  serve attempts are those that were, followed by that document, with local storage as
  it was. The document's coordinates are: the string \<open>c\<close> itself when \<open>c\<close> is a non-empty
  string; \<^verbatim>\<open>"a,b"\<close>, the string conversions of latitude and longitude joined by a
  comma, when \<open>c\<close> is an object whose latitude \<open>a\<close> and longitude \<open>b\<close> are both
  defined; \<^verbatim>\<open>"0,0"\<close> when \<open>c\<close> is an object that lacks one of them, and when \<open>c\<close> is
  absent, null or the empty string.

  When the service does not accept, no serve attempt is stored. The local record \<open>r\<close>
  holds \<open>c\<close> as it was given, an object still an object, and null when \<open>c\<close> is absent,
  null or the empty string. If the stored serve list parses to an array and local
  storage accepts the write, the creation returns \<open>r\<close> and the key holds the list with
  \<open>r\<close> appended; if not, the creation throws and local storage is as it was.
\<close>

theorem create_persists_coordinates:
  assumes c: "c = field sd ''coordinates''"
    and i: "i = JStr (unique en (drawn w))"
    and run: "resolve_client_name en sd w = (Inr name, w1)"
    and valid: "valid = (truthy (field sd ''clientId'')
                         \<and> \<not> strict_eq (field sd ''clientId'') (JStr ''unknown''))"
    and accepted:
      "accepted = (valid
                   \<and> find (has_id i) (serves_of w) = None
                   \<and> (\<exists>ts. fst (timestamp_iso en (field sd ''timestamp'') w) = Inr ts
                         \<and> \<not> fails en (trace w1)
                              (CreateDocument ServeAttempts i (serve_payload en sd name ts))))"
    and r: "r = local_serve en sd (unique en (if valid then Suc (drawn w) else drawn w))"
    and out: "out = createServeAttempt en sd w"
  shows "(accepted \<longrightarrow>
            (\<exists>d response.
                fst out = Inr response
              \<and> serves_of (snd out) = serves_of w @ [d]
              \<and> local_storage (snd out) = local_storage w
              \<and> field d ''$id'' = i
              \<and> field response ''coordinates'' = field d ''coordinates''
              \<and> (\<forall>s. c = JStr s \<and> s \<noteq> [] \<longrightarrow> field d ''coordinates'' = JStr s)
              \<and> (\<forall>obj a b. c = JObj obj
                     \<and> field obj ''latitude'' = a \<and> field obj ''longitude'' = b
                     \<and> a \<noteq> JUndefined \<and> b \<noteq> JUndefined
                   \<longrightarrow> field d ''coordinates'' = JStr (to_str en a @ '','' @ to_str en b))
              \<and> (\<forall>obj. c = JObj obj
                     \<and> (field obj ''latitude'' = JUndefined
                        \<or> field obj ''longitude'' = JUndefined)
                   \<longrightarrow> field d ''coordinates'' = JStr ''0,0'')
              \<and> (\<not> truthy c \<longrightarrow> field d ''coordinates'' = JStr ''0,0'')))
       \<and> (\<not> accepted \<longrightarrow>
            serves_of (snd out) = serves_of w
          \<and> field r ''coordinates'' = (if truthy c then c else JNull)
          \<and> (\<forall>xs. json_parse en (stored_serves w) = Some (JArr xs)
                 \<and> \<not> set_item_fails en ''serve-tracker-serves''
                       (json_stringify en (JArr (xs @ [JObj r])))
               \<longrightarrow> fst out = Inr r
                 \<and> local_storage (snd out)
                     = (local_storage w)
                         (''serve-tracker-serves'' \<mapsto>
                            json_stringify en (JArr (xs @ [JObj r]))))
          \<and> ((\<forall>xs. json_parse en (stored_serves w) = Some (JArr xs)
                 \<longrightarrow> set_item_fails en ''serve-tracker-serves''
                       (json_stringify en (JArr (xs @ [JObj r]))))
               \<longrightarrow> (\<exists>e. fst out = Inl e)
                 \<and> local_storage (snd out) = local_storage w))"
proof (cases accepted)
  case True
  with accepted valid i obtain ts
    where v: "truthy (field sd ''clientId'')"
        "\<not> strict_eq (field sd ''clientId'') (JStr ''unknown'')"
      and fresh: "find (has_id (JStr (unique en (drawn w)))) (serves_of w) = None"
      and ts: "fst (timestamp_iso en (field sd ''timestamp'') w) = Inr ts"
      and ok: "\<not> fails en (trace w1)
                 (CreateDocument ServeAttempts (JStr (unique en (drawn w)))
                    (serve_payload en sd name ts))"
    by auto
  define d where "d = (''$id'', JStr (unique en (drawn w))) # serve_payload en sd name ts"
  define response where
    "response = (if truthy (field sd ''clientEmail'')
                 then set_field ''clientEmail'' (field sd ''clientEmail'') d else d)"
  note res = create_remote_ok [OF v run ts ok fresh d_def, folded response_def out]
  have dc: "field d ''coordinates'' = normalize_coordinates en c"
    and di: "field d ''$id'' = i"
    by (simp_all add: d_def stored_coordinates_field c i)
  have rc: "field response ''coordinates'' = field d ''coordinates''"
    by (simp add: response_def field_set_field_other)
  have n1: "field d ''coordinates'' = JStr s" if "c = JStr s" "s \<noteq> []" for s
    using that by (simp add: dc normalize_coordinates_def)
  have n2: "field d ''coordinates'' = JStr (to_str en a @ '','' @ to_str en b)"
    if "c = JObj obj" "field obj ''latitude'' = a" "field obj ''longitude'' = b"
      "a \<noteq> JUndefined" "b \<noteq> JUndefined" for obj a b
    using that by (simp add: dc normalize_coordinates_def)
  have n3: "field d ''coordinates'' = JStr ''0,0''"
    if "c = JObj obj" "field obj ''latitude'' = JUndefined \<or> field obj ''longitude'' = JUndefined"
    for obj
    using that by (auto simp: dc normalize_coordinates_def)
  have n4: "field d ''coordinates'' = JStr ''0,0''" if "\<not> truthy c"
    using that by (simp add: dc normalize_coordinates_def)
  from True res di rc n1 n2 n3 n4 show ?thesis
    by (intro conjI impI exI [of _ d] exI [of _ response]) blast+
next
  case False
  let ?key = "''serve-tracker-serves''"
  from False accepted valid i
  have no: "\<not> (truthy (field sd ''clientId'')
               \<and> \<not> strict_eq (field sd ''clientId'') (JStr ''unknown'')
               \<and> find (has_id (JStr (unique en (drawn w)))) (serves_of w) = None
               \<and> (\<exists>ts. fst (timestamp_iso en (field sd ''timestamp'') w) = Inr ts
                     \<and> \<not> fails en (trace w1)
                          (CreateDocument ServeAttempts (JStr (unique en (drawn w)))
                             (serve_payload en sd name ts))))"
    by simp
  from create_remote_refused [OF run no] obtain e w'
    where body: "createServeAttempt_try en sd w = (Inl e, w')"
      and k: "store w' = store w" "local_storage w' = local_storage w"
        "drawn w' = (if valid then Suc (drawn w) else drawn w)"
    unfolding valid by blast
  let ?w = "w'\<lparr>console := console w' @ [(Err, ''Error creating serve attempt:'')]\<rparr>"
  have st: "stored_serves ?w = stored_serves w" "drawn ?w = drawn w'"
      "local_storage ?w = local_storage w" "store ?w = store w"
    by (simp_all add: stored_serves_def k)
  have new: "local_serve en sd (unique en (drawn w')) = r"
    by (simp add: r k)
  note run_out = catch_after_try [OF body, folded out]
  have kept: "serves_of (snd out) = serves_of w"
    by (simp add: run_out local_fallback_eq st k(1) serves_of_def
        split: option.splits jsval.splits)
  have coords: "field r ''coordinates'' = (if truthy c then c else JNull)"
    by (simp add: r local_serve_coordinates c)
  have A: "fst out = Inr r
         \<and> local_storage (snd out)
             = (local_storage w)(?key \<mapsto> json_stringify en (JArr (xs @ [JObj r])))"
    if "json_parse en (stored_serves w) = Some (JArr xs)"
      and "\<not> set_item_fails en ?key (json_stringify en (JArr (xs @ [JObj r])))" for xs
    using that by (simp add: run_out local_fallback_eq st k(2) new)
  have B: "(\<exists>e. fst out = Inl e) \<and> local_storage (snd out) = local_storage w"
    if "\<forall>xs. json_parse en (stored_serves w) = Some (JArr xs)
          \<longrightarrow> set_item_fails en ?key (json_stringify en (JArr (xs @ [JObj r])))"
    using that
    by (auto simp: run_out local_fallback_eq st k(2) new split: option.splits jsval.splits)
  from False kept coords A B show ?thesis by blast
qed


text \<open>
  The service accepts: a string, the pair of the specification and the empty string are
  stored as \<^verbatim>\<open>"41.0,-73.5"\<close>, \<^verbatim>\<open>"12.34,56.78"\<close> and \<^verbatim>\<open>"0,0"\<close>, after the three
  documents that were there, and local storage stays empty. The service refuses the
  create: nothing is stored remotely, and the record returned and written to local
  storage holds the pair as an object.
\<close>

theorem create_persists_coordinates_witness:
  "stored_coordinates
     (snd (createServeAttempt quiet_env (serve_input (JStr ''41.0,-73.5'')) sample_world))
     = [JStr ''40.7,-74.0'', JStr ''40.7,-74.0'', JStr ''40.7,-74.0'', JStr ''41.0,-73.5'']
   \<and> stored_coordinates
       (snd (createServeAttempt quiet_env (serve_input pair_coordinates) sample_world))
     = [JStr ''40.7,-74.0'', JStr ''40.7,-74.0'', JStr ''40.7,-74.0'', JStr ''12.34,56.78'']
   \<and> stored_coordinates
       (snd (createServeAttempt quiet_env (serve_input (JStr [])) sample_world))
     = [JStr ''40.7,-74.0'', JStr ''40.7,-74.0'', JStr ''40.7,-74.0'', JStr ''0,0'']
   \<and> local_storage
       (snd (createServeAttempt quiet_env (serve_input pair_coordinates) sample_world))
       ''serve-tracker-serves'' = None
   \<and> stored_coordinates
       (snd (createServeAttempt no_create_env (serve_input pair_coordinates) sample_world))
     = [JStr ''40.7,-74.0'', JStr ''40.7,-74.0'', JStr ''40.7,-74.0'']
   \<and> result_coordinates
       (createServeAttempt no_create_env (serve_input pair_coordinates) sample_world)
     = Some (JObj [(''latitude'', JNum 12.34), (''longitude'', JNum 56.78)])
   \<and> local_storage
       (snd (createServeAttempt no_create_env (serve_input pair_coordinates) sample_world))
       ''serve-tracker-serves'' = Some ''json''"
proof -
  let ?old = "[JStr ''40.7,-74.0'', JStr ''40.7,-74.0'', JStr ''40.7,-74.0'']"
  have f: "field (serve_input c) ''clientId'' = JStr ''c1''"
      "field (serve_input c) ''clientName'' = JStr ''Ada''"
      "field (serve_input c) ''timestamp'' = JUndefined"
      "field (serve_input c) ''coordinates'' = c" for c
    by (simp_all add: serve_input_def field_def)
  have n: "resolve_client_name e (serve_input c) w = (Inr (JStr ''Ada''), w)" for e c w
    by (simp add: resolve_client_name_def f js_or_def io_ret_def)
  have t: "fst (timestamp_iso e JUndefined w) = Inr (iso_string e (now e))" for e w
    by (simp add: timestamp_iso_def toISOString_def io_ret_def)
  have old: "map (\<lambda>d. field d ''coordinates'') (serves_of sample_world) = ?old"
    by code_simp
  have fresh: "find (has_id (JStr (unique quiet_env (drawn sample_world))))
                 (serves_of sample_world) = None"
    by code_simp
  have q: "fails quiet_env tr call = False" for tr call
    by (simp add: quiet_env_simps)
  have nc: "fails no_create_env tr (CreateDocument col i p) = True" for tr col i p
    by (simp add: no_create_env_def)
  have local: "local_storage sample_world ''serve-tracker-serves'' = None"
    by (simp add: sample_world_def empty_world_def)
  have remote:
    "\<exists>v. stored_coordinates (snd (createServeAttempt quiet_env (serve_input c) sample_world))
            = ?old @ [v]
        \<and> local_storage (snd (createServeAttempt quiet_env (serve_input c) sample_world))
            ''serve-tracker-serves'' = None
        \<and> (\<forall>s. c = JStr s \<and> s \<noteq> [] \<longrightarrow> v = JStr s)
        \<and> (\<forall>obj a b. c = JObj obj
               \<and> field obj ''latitude'' = a \<and> field obj ''longitude'' = b
               \<and> a \<noteq> JUndefined \<and> b \<noteq> JUndefined
             \<longrightarrow> v = JStr (to_str quiet_env a @ '','' @ to_str quiet_env b))
        \<and> (\<not> truthy c \<longrightarrow> v = JStr ''0,0'')" for c
  proof -
    from create_persists_coordinates
           [where en = quiet_env and sd = "serve_input c" and w = sample_world,
            OF refl refl n refl refl refl refl]
    obtain d where "serves_of (snd (createServeAttempt quiet_env (serve_input c) sample_world))
                      = serves_of sample_world @ [d]"
        "local_storage (snd (createServeAttempt quiet_env (serve_input c) sample_world))
           = local_storage sample_world"
        "\<forall>s. c = JStr s \<and> s \<noteq> [] \<longrightarrow> field d ''coordinates'' = JStr s"
        "\<forall>obj a b. c = JObj obj
               \<and> field obj ''latitude'' = a \<and> field obj ''longitude'' = b
               \<and> a \<noteq> JUndefined \<and> b \<noteq> JUndefined
             \<longrightarrow> field d ''coordinates'' = JStr (to_str quiet_env a @ '','' @ to_str quiet_env b)"
        "\<not> truthy c \<longrightarrow> field d ''coordinates'' = JStr ''0,0''"
      unfolding f q using fresh t [of quiet_env sample_world] by auto
    then show ?thesis
      by (intro exI [of _ "field d ''coordinates''"])
         (simp add: stored_coordinates_def old local)
  qed
  have pair: "to_str quiet_env (JNum 12.34) @ '','' @ to_str quiet_env (JNum 56.78)
               = ''12.34,56.78''"
    by (simp add: quiet_env_def)
  from remote [of "JStr ''41.0,-73.5''"]
  have a: "stored_coordinates
     (snd (createServeAttempt quiet_env (serve_input (JStr ''41.0,-73.5'')) sample_world))
     = ?old @ [JStr ''41.0,-73.5'']"
    by auto
  from remote [of pair_coordinates] obtain v
    where v: "stored_coordinates
        (snd (createServeAttempt quiet_env (serve_input pair_coordinates) sample_world))
        = ?old @ [v]"
      "local_storage
         (snd (createServeAttempt quiet_env (serve_input pair_coordinates) sample_world))
         ''serve-tracker-serves'' = None"
      "\<forall>obj a b. pair_coordinates = JObj obj
          \<and> field obj ''latitude'' = a \<and> field obj ''longitude'' = b
          \<and> a \<noteq> JUndefined \<and> b \<noteq> JUndefined
        \<longrightarrow> v = JStr (to_str quiet_env a @ '','' @ to_str quiet_env b)"
    by blast
  from v(3) [rule_format, of "[(''latitude'', JNum 12.34), (''longitude'', JNum 56.78)]"
               "JNum 12.34" "JNum 56.78"]
  have "v = JStr (to_str quiet_env (JNum 12.34) @ '','' @ to_str quiet_env (JNum 56.78))"
    by (simp add: pair_coordinates_def field_def)
  with v(1,2) have b: "stored_coordinates
       (snd (createServeAttempt quiet_env (serve_input pair_coordinates) sample_world))
     = ?old @ [JStr ''12.34,56.78'']"
    "local_storage
       (snd (createServeAttempt quiet_env (serve_input pair_coordinates) sample_world))
       ''serve-tracker-serves'' = None"
    unfolding pair by simp_all
  from remote [of "JStr []"]
  have c: "stored_coordinates
       (snd (createServeAttempt quiet_env (serve_input (JStr [])) sample_world))
     = ?old @ [JStr ''0,0'']"
    by auto
  let ?out = "createServeAttempt no_create_env (serve_input pair_coordinates) sample_world"
  let ?r = "local_serve no_create_env (serve_input pair_coordinates)
              (unique no_create_env (Suc (drawn sample_world)))"
  from create_persists_coordinates
         [where en = no_create_env and sd = "serve_input pair_coordinates"
            and w = sample_world, OF refl refl n refl refl refl refl]
  have d: "serves_of (snd ?out) = serves_of sample_world"
      "field ?r ''coordinates'' = pair_coordinates"
      "fst ?out = Inr ?r"
      "local_storage (snd ?out) ''serve-tracker-serves'' = Some ''json''"
    unfolding f nc
    by (simp_all add: no_create_env_def quiet_env_simps stored_serves_def local
        pair_coordinates_def)
  from d have e: "stored_coordinates (snd ?out) = ?old"
      "result_coordinates ?out
         = Some (JObj [(''latitude'', JNum 12.34), (''longitude'', JNum 56.78)])"
    by (simp_all add: stored_coordinates_def old result_coordinates_def pair_coordinates_def)
  from a b c d(4) e show ?thesis by simp
qed

text \<open>
  C8 as stated fails: the remote create fails, the creation returns the local record and
  writes it to local storage, and the coordinates supplied as the pair
  \<^verbatim>\<open>{latitude: 12.34, longitude: 56.78}\<close> are persisted as that object, not as the
  string \<^verbatim>\<open>"12.34,56.78"\<close>.
\<close>

theorem create_fallback_pair_counterexample:
  "fst (createServeAttempt printing_env (serve_input pair_coordinates) sample_world)
     = Inr [(''id'', JStr ''uu''), (''clientId'', JStr ''c1''), (''clientName'', JStr ''Ada''),
            (''clientEmail'', JUndefined), (''caseNumber'', JStr ''N-1''),
            (''caseName'', JStr ''Unknown Case''),
            (''coordinates'', JObj [(''latitude'', JNum 12.34), (''longitude'', JNum 56.78)]),
            (''notes'', JStr []), (''status'', JStr ''unknown''),
            (''timestamp'', JDate (Some 0)), (''attemptNumber'', JNum 1),
            (''imageData'', JNull), (''address'', JStr [])]
   \<and> local_storage
       (snd (createServeAttempt printing_env (serve_input pair_coordinates) sample_world))
       ''serve-tracker-serves''
     = Some (''[{id:uu,clientId:c1,clientName:Ada,caseNumber:N-1,caseName:Unknown Case,''
             @ ''coordinates:{latitude:12.34,longitude:56.78},notes:,status:unknown,''
             @ ''timestamp:1970-01-01T00:00:00.000Z,attemptNumber:1,imageData:null,address:}]'')
   \<and> stored_coordinates
       (snd (createServeAttempt printing_env (serve_input pair_coordinates) sample_world))
     = [JStr ''40.7,-74.0'', JStr ''40.7,-74.0'', JStr ''40.7,-74.0'']"
  by code_simp

section \<open>Deleting a client\<close>

lemma format_serve_dollar_id: "field (format_serve en img doc) ''$id'' = JUndefined"
  by (simp add: format_serve_def field_def)

lemma set_insert_sorted: "set (insert_sorted cmp x ys) = insert x (set ys)"
  by (induction ys) auto

lemma set_js_sort: "set (js_sort cmp xs) = set xs"
  by (induction xs) (simp_all add: js_sort_def set_insert_sorted)

lemma set_engine_order: "set (engine_order en xs) = set xs"
proof -
  let ?zs = "zip (map (engine_rank en xs) [0..<length xs]) xs"
  have xs: "map snd ?zs = xs" by (simp add: map_snd_zip)
  have "set (engine_order en xs) = snd ` set (sort_key fst ?zs)"
    by (simp only: engine_order_def set_map)
  also have "\<dots> = snd ` set ?zs" by (simp only: set_sort)
  also have "\<dots> = set (map snd ?zs)" by (simp only: set_map)
  finally show ?thesis by (simp only: xs)
qed

lemma set_sort_by_time_desc: "set (sort_by_time_desc en xs) = set xs"
  by (simp add: sort_by_time_desc_def set_js_sort set_engine_order)

text \<open>No record that \<^verbatim>\<open>getClientServeAttempts\<close> returns has a field \<^verbatim>\<open>$id\<close>.\<close>

lemma getClientServeAttempts_records:
  assumes "getClientServeAttempts en cid w = (Inr rs, w')"
  shows "\<forall>r \<in> set rs. field r ''$id'' = JUndefined"
proof (cases "fails en (trace w) (ListDocuments ServeAttempts [QEqual ''client_id'' cid])")
  case True
  with assms show ?thesis
    by (simp add: getClientServeAttempts_def io_defs listDocuments_fails)
next
  case False
  with assms show ?thesis
    by (auto simp: getClientServeAttempts_def io_defs listDocuments_ok set_sort_by_time_desc
        format_serve_dollar_id)
qed

lemma emits_deleteServeAttempt_undefined:
  "grows trace P (deleteServeAttempt en JUndefined)"
  unfolding deleteServeAttempt_def
  by (simp add: grows_catch grows_bind grows_ret grows_throw grows_local)

lemma keeps_file_id_invalid: "keeps trace (file_id_invalid en f)"
  by (simp add: file_id_invalid_def keeps_def io_defs split: jsval.splits)

lemma emits_deleteClientDocument:
  assumes "P (DeleteFile f)" "P (DeleteDocument Documents i)"
  shows "grows trace P (deleteClientDocument en i f)"
  unfolding deleteClientDocument_def
  by (intro grows_catch grows_bind grows_if emits_deleteFile emits_deleteDocument grows_ret
      grows_throw grows_local grows_keeps keeps_file_id_invalid assms)

lemma emits_deleteClientCase:
  assumes "P (DeleteDocument Cases i)"
  shows "grows trace P (deleteClientCase en i)"
  unfolding deleteClientCase_def
  by (intro grows_catch grows_bind emits_deleteDocument grows_ret grows_throw grows_local
      assms)

text \<open>
  Whatever the environment, the client and the world, \<^verbatim>\<open>deleteClient\<close> never asks
  the service to delete a serve attempt: each record of the second loop has its
  identifier in \<^verbatim>\<open>id\<close>, the loop passes \<^verbatim>\<open>serve.$id\<close>, which is undefined, and
  \<^verbatim>\<open>deleteServeAttempt\<close> returns false on it without a request.
\<close>

lemma deleteClient_keeps_serves: "grows trace keeps_serves (deleteClient en clientId)"
proof -
  have serves_loop:
    "grows trace keeps_serves
       (for_each
          (\<lambda>serve.
             io_catch (io_bind (deleteServeAttempt en (field serve ''$id'')) (\<lambda>_. io_ret ()))
               (\<lambda>serveError. console_error ''Error deleting serve attempt''))
          serves)"
    if "\<forall>r \<in> set serves. field r ''$id'' = JUndefined" for serves
  proof (rule grows_for_each)
    fix serve
    assume "serve \<in> set serves"
    with that have "field serve ''$id'' = JUndefined" by blast
    then show "grows trace keeps_serves
       (io_catch (io_bind (deleteServeAttempt en (field serve ''$id'')) (\<lambda>_. io_ret ()))
          (\<lambda>serveError. console_error ''Error deleting serve attempt''))"
      by (simp add: grows_catch grows_bind emits_deleteServeAttempt_undefined grows_ret
          grows_local)
  qed
  have cases_list: "grows trace keeps_serves (getClientCases en clientId)"
    unfolding getClientCases_def
    by (intro grows_catch grows_bind emits_listDocuments grows_ret grows_local) simp
  have cases_loop: "grows trace keeps_serves
       (for_each
          (\<lambda>caseDoc.
             io_catch (io_bind (deleteClientCase en (field caseDoc ''$id'')) (\<lambda>_. io_ret ()))
               (\<lambda>caseError. console_error ''Error deleting case''))
          cases)" for cases
    by (intro grows_for_each grows_catch grows_bind emits_deleteClientCase grows_ret
        grows_local) simp
  have serves_list: "grows trace keeps_serves (getClientServeAttempts en clientId)"
    unfolding getClientServeAttempts_def
    by (intro grows_catch grows_bind emits_listDocuments grows_ret grows_local) simp
  have docs_list: "grows trace keeps_serves (getClientDocuments en clientId JUndefined)"
    unfolding getClientDocuments_def
    by (intro grows_catch grows_bind emits_listDocuments grows_ret grows_local) simp
  have docs_loop: "grows trace keeps_serves
       (for_each
          (\<lambda>doc.
             io_catch
               (io_bind
                  (deleteClientDocument en (field doc ''$id'')
                     (js_or (field doc ''file_path'') (field doc ''filePath'')))
                  (\<lambda>_. io_ret ()))
               (\<lambda>docError. console_error ''Error deleting document''))
          documents)" for documents
    by (intro grows_for_each grows_catch grows_bind emits_deleteClientDocument grows_ret
        grows_local) simp_all
  have client: "grows trace keeps_serves (deleteDocument en Clients clientId)"
    by (rule emits_deleteDocument) simp
  have rest: "grows trace keeps_serves
       (io_bind
          (for_each
             (\<lambda>serve.
                io_catch (io_bind (deleteServeAttempt en (field serve ''$id'')) (\<lambda>_. io_ret ()))
                  (\<lambda>serveError. console_error ''Error deleting serve attempt''))
             serves) (\<lambda>_.
        io_bind (getClientDocuments en clientId JUndefined) (\<lambda>documents.
        io_bind
          (for_each
             (\<lambda>doc.
                io_catch
                  (io_bind
                     (deleteClientDocument en (field doc ''$id'')
                        (js_or (field doc ''file_path'') (field doc ''filePath'')))
                     (\<lambda>_. io_ret ()))
                  (\<lambda>docError. console_error ''Error deleting document''))
             documents) (\<lambda>_.
        io_bind (deleteDocument en Clients clientId) (\<lambda>_. io_ret True)))))"
    if "\<forall>r \<in> set serves. field r ''$id'' = JUndefined" for serves
    by (intro grows_bind serves_loop [OF that] docs_list docs_loop client grows_ret)
  show ?thesis
    unfolding deleteClient_def
    by (intro grows_catch grows_bind cases_list cases_loop grows_local grows_throw
        grows_bind_post [OF serves_list getClientServeAttempts_records rest])
qed

text \<open>
  C3, at the deletion the specification's test describes: a client with two cases,
  three serve attempts and one document, and no request failing. \<^verbatim>\<open>deleteClient\<close>
  returns true; it has deleted the two cases, the file, the document and the client, in
  that order; it has listed the serve attempts and requested the deletion of none of
  them, warning three times of an invalid identifier; the three serve attempts are
  still stored.
\<close>

theorem deleteClient_leaves_serve_attempts:
  "fst (deleteClient quiet_env (JStr ''c1'') sample_world) = Inr True
   \<and> trace (snd (deleteClient quiet_env (JStr ''c1'') sample_world))
       = [ListDocuments Cases [QEqual ''client_id'' (JStr ''c1'')],
          DeleteDocument Cases (JStr ''k1''),
          DeleteDocument Cases (JStr ''k2''),
          ListDocuments ServeAttempts [QEqual ''client_id'' (JStr ''c1'')],
          ListDocuments Documents [QEqual ''client_id'' (JStr ''c1'')],
          DeleteFile (JStr ''f1''),
          DeleteDocument Documents (JStr ''d1''),
          DeleteDocument Clients (JStr ''c1'')]
   \<and> store (snd (deleteClient quiet_env (JStr ''c1'') sample_world)) ServeAttempts
       = [serve_doc ''s1'', serve_doc ''s2'', serve_doc ''s3'']
   \<and> store (snd (deleteClient quiet_env (JStr ''c1'') sample_world)) Cases = []
   \<and> store (snd (deleteClient quiet_env (JStr ''c1'') sample_world)) Documents = []
   \<and> store (snd (deleteClient quiet_env (JStr ''c1'') sample_world)) Clients = []
   \<and> console (snd (deleteClient quiet_env (JStr ''c1'') sample_world))
       = [(Warn, ''Invalid serveId provided to deleteServeAttempt:''),
          (Warn, ''Invalid serveId provided to deleteServeAttempt:''),
          (Warn, ''Invalid serveId provided to deleteServeAttempt:'')]"
  by code_simp

end
